theory Spec2Isabelle
  imports Main "HOL-Library.Word"
begin

section \<open>JavaScript strings and values\<close>

text \<open>
  A JavaScript string is a sequence of 16-bit code units. String literals of the source are
  written \<open>js ''...''\<close>.
\<close>

type_synonym jsstring = "16 word list"

definition js :: "string \<Rightarrow> jsstring" where
  "js s = map of_char s"

text \<open>
  Everything the programs throw is an \<open>Error\<close> object; the model keeps its class, its
  message and, for \<open>ApiError\<close> (second HTTP variant), its \<open>status\<close> field.
\<close>

datatype error =
    Error jsstring
  | TypeError jsstring
  | URIError jsstring
  | SyntaxError jsstring
  | ApiError jsstring nat

fun message :: "error \<Rightarrow> jsstring" where
  "message (Error m) = m"
| "message (TypeError m) = m"
| "message (URIError m) = m"
| "message (SyntaxError m) = m"
| "message (ApiError m s) = m"

section \<open>Percent-encoding: \<open>encodeURIComponent\<close> and \<open>sanitizeId\<close>\<close>

text \<open>
  The characters \<open>encodeURIComponent\<close> leaves alone: ASCII letters, digits and
  \<open>- _ . ! ~ * ' ( )\<close>.
\<close>

definition unreserved :: "16 word \<Rightarrow> bool" where
  "unreserved c \<longleftrightarrow>
     (0x41 \<le> c \<and> c \<le> 0x5A) \<or> (0x61 \<le> c \<and> c \<le> 0x7A) \<or> (0x30 \<le> c \<and> c \<le> 0x39) \<or>
     c = 0x2D \<or> c = 0x5F \<or> c = 0x2E \<or> c = 0x21 \<or> c = 0x7E \<or> c = 0x2A \<or>
     c = 0x27 \<or> c = 0x28 \<or> c = 0x29"

definition is_lead :: "16 word \<Rightarrow> bool" where
  "is_lead c \<longleftrightarrow> 0xD800 \<le> c \<and> c \<le> 0xDBFF"

definition is_trail :: "16 word \<Rightarrow> bool" where
  "is_trail c \<longleftrightarrow> 0xDC00 \<le> c \<and> c \<le> 0xDFFF"

definition pair_code_point :: "16 word \<Rightarrow> 16 word \<Rightarrow> nat" where
  "pair_code_point c d = (unat c - 0xD800) * 0x400 + (unat d - 0xDC00) + 0x10000"

definition utf8 :: "nat \<Rightarrow> nat list" where
  "utf8 n =
     (if n < 0x80 then [n]
      else if n < 0x800 then [0xC0 + n div 64, 0x80 + n mod 64]
      else if n < 0x10000 then [0xE0 + n div 4096, 0x80 + (n div 64) mod 64, 0x80 + n mod 64]
      else [0xF0 + n div 262144, 0x80 + (n div 4096) mod 64, 0x80 + (n div 64) mod 64,
            0x80 + n mod 64])"

definition hex_digit :: "nat \<Rightarrow> 16 word" where
  "hex_digit d = (if d < 10 then 0x30 + of_nat d else 0x41 + of_nat (d - 10))"

definition percent :: "nat \<Rightarrow> jsstring" where
  "percent b = [0x25, hex_digit (b div 16), hex_digit (b mod 16)]"

definition percent_utf8 :: "nat \<Rightarrow> jsstring" where
  "percent_utf8 n = concat (map percent (utf8 n))"

definition prepend :: "jsstring \<Rightarrow> error + jsstring \<Rightarrow> error + jsstring" where
  "prepend p r = (case r of Inl e \<Rightarrow> Inl e | Inr s \<Rightarrow> Inr (p @ s))"

text \<open>
  \<open>encodeURIComponent\<close> walks the code units from the left. An unreserved unit is copied;
  any other is read as a code point (a leading surrogate together with the trailing one
  after it), encoded in UTF-8 and written as \<open>%XX\<close> escapes. A surrogate without its
  partner makes it throw \<open>URIError\<close>.
\<close>

fun encodeURIComponent :: "jsstring \<Rightarrow> error + jsstring" where
  "encodeURIComponent [] = Inr []"
| "encodeURIComponent [c] =
     (if unreserved c then Inr [c]
      else if is_lead c \<or> is_trail c then Inl (URIError (js ''URI malformed''))
      else Inr (percent_utf8 (unat c)))"
| "encodeURIComponent (c # d # ds) =
     (if unreserved c then prepend [c] (encodeURIComponent (d # ds))
      else if is_lead c then
        (if is_trail d then prepend (percent_utf8 (pair_code_point c d)) (encodeURIComponent ds)
         else Inl (URIError (js ''URI malformed'')))
      else if is_trail c then Inl (URIError (js ''URI malformed''))
      else prepend (percent_utf8 (unat c)) (encodeURIComponent (d # ds)))"

text \<open>\<open>id.replace(/^@/, "")\<close>: one \<open>@\<close> at the very start is removed, nothing else.\<close>

definition replace_leading_at :: "jsstring \<Rightarrow> jsstring" where
  "replace_leading_at s = (case s of [] \<Rightarrow> [] | c # cs \<Rightarrow> if c = 0x40 then cs else c # cs)"

definition sanitizeId :: "jsstring \<Rightarrow> error + jsstring" where
  "sanitizeId i = encodeURIComponent (replace_leading_at i)"

text \<open>A string is well formed when every surrogate is half of a pair.\<close>

fun isWellFormed :: "jsstring \<Rightarrow> bool" where
  "isWellFormed [] = True"
| "isWellFormed [c] = (\<not> is_lead c \<and> \<not> is_trail c)"
| "isWellFormed (c # d # ds) =
     (if is_lead c then is_trail d \<and> isWellFormed ds
      else \<not> is_trail c \<and> isWellFormed (d # ds))"

definition url_safe :: "16 word \<Rightarrow> bool" where
  "url_safe c \<longleftrightarrow> unreserved c \<or> c = 0x25"

definition succeeds :: "error + 'a \<Rightarrow> bool" where
  "succeeds r = (case r of Inl e \<Rightarrow> False | Inr v \<Rightarrow> True)"

section \<open>Decoded JSON and the JavaScript operations on it\<close>

text \<open>
  What \<open>response.json()\<close>, \<open>express.json()\<close>, the query parser and the tool arguments hand to
  the code. An object is the list of its own properties. Numbers are modelled on the
  integers (those that \<open>String\<close> prints as plain decimals). \<open>undefined\<close> is \<open>None\<close> of
  \<open>json option\<close>.
\<close>

datatype json =
    JNull
  | JBool bool
  | JNum int
  | JStr jsstring
  | JArr "json list"
  | JObj "(jsstring \<times> json) list"

type_synonym object = "(jsstring \<times> json) list"

definition get :: "object \<Rightarrow> jsstring \<Rightarrow> json option" where
  "get obj k = map_of obj k"

text \<open>
  \<open>data.k\<close> on a decoded value, for the keys the programs read (\<open>success\<close>,
  \<open>errorDescription\<close>, \<open>message\<close>; no prototype has them): reading a property of \<open>null\<close>
  throws, an object yields its own property, every other value yields \<open>undefined\<close>.
\<close>

fun own :: "json \<Rightarrow> jsstring \<Rightarrow> json option" where
  "own (JObj kvs) k = get kvs k"
| "own v k = None"

definition getProp :: "json \<Rightarrow> jsstring \<Rightarrow> error + json option" where
  "getProp data k =
     (if data = JNull
      then Inl (TypeError (js ''Cannot read properties of null (reading '' @ [0x27] @ k @ [0x27] @ js '')''))
      else Inr (own data k))"

fun truthy :: "json option \<Rightarrow> bool" where
  "truthy None = False"
| "truthy (Some JNull) = False"
| "truthy (Some (JBool b)) = b"
| "truthy (Some (JNum n)) = (n \<noteq> 0)"
| "truthy (Some (JStr s)) = (s \<noteq> [])"
| "truthy (Some (JArr xs)) = True"
| "truthy (Some (JObj kvs)) = True"

fun decimal :: "nat \<Rightarrow> jsstring" where
  "decimal n = (if n < 10 then [0x30 + of_nat n] else decimal (n div 10) @ [0x30 + of_nat (n mod 10)])"

declare decimal.simps [simp del]

text \<open>
  \<open>String(v)\<close> and \<open>`${v}`\<close>. An array is its elements joined by commas, \<open>null\<close> elements
  as empty strings. An object is \<open>[object Object]\<close>, unless it has an own property
  \<open>toString\<close> (never callable in decoded JSON), in which case the conversion throws.
\<close>

fun ToString :: "json \<Rightarrow> error + jsstring"
  and join_elements :: "json list \<Rightarrow> error + jsstring" where
  "ToString JNull = Inr (js ''null'')"
| "ToString (JBool b) = Inr (if b then js ''true'' else js ''false'')"
| "ToString (JNum n) = Inr (if n < 0 then 0x2D # decimal (nat (- n)) else decimal (nat n))"
| "ToString (JStr s) = Inr s"
| "ToString (JArr xs) = join_elements xs"
| "ToString (JObj kvs) =
     (if js ''toString'' \<in> fst ` set kvs
      then Inl (TypeError (js ''Cannot convert object to primitive value''))
      else Inr (js ''[object Object]''))"
| "join_elements [] = Inr []"
| "join_elements [x] = (if x = JNull then Inr [] else ToString x)"
| "join_elements (x # y # ys) =
     (case (if x = JNull then Inr [] else ToString x) of
        Inl e \<Rightarrow> Inl e
      | Inr s \<Rightarrow> prepend (s @ [0x2C]) (join_elements (y # ys)))"

definition ToString_opt :: "json option \<Rightarrow> error + jsstring" where
  "ToString_opt v = (case v of None \<Rightarrow> Inr (js ''undefined'') | Some x \<Rightarrow> ToString x)"

definition and_then :: "error + 'a \<Rightarrow> ('a \<Rightarrow> error + 'b) \<Rightarrow> error + 'b" where
  "and_then r f = (case r of Inl e \<Rightarrow> Inl e | Inr v \<Rightarrow> f v)"

section \<open>\<open>URLSearchParams\<close>\<close>

text \<open>
  \<open>params.toString()\<close> is the application/x-www-form-urlencoded serialisation: letters,
  digits and \<open>* - . _\<close> stay, a space becomes \<open>+\<close>, everything else is the \<open>%XX\<close> escapes of
  its UTF-8 bytes. \<open>append\<close> takes scalar-value strings, so a lone surrogate has become
  U+FFFD; nothing throws.
\<close>

definition form_unreserved :: "16 word \<Rightarrow> bool" where
  "form_unreserved c \<longleftrightarrow>
     (0x41 \<le> c \<and> c \<le> 0x5A) \<or> (0x61 \<le> c \<and> c \<le> 0x7A) \<or> (0x30 \<le> c \<and> c \<le> 0x39) \<or>
     c = 0x2A \<or> c = 0x2D \<or> c = 0x2E \<or> c = 0x5F"

fun form_encode :: "jsstring \<Rightarrow> jsstring" where
  "form_encode [] = []"
| "form_encode [c] =
     (if form_unreserved c then [c]
      else if c = 0x20 then [0x2B]
      else if is_lead c \<or> is_trail c then percent_utf8 0xFFFD
      else percent_utf8 (unat c))"
| "form_encode (c # d # ds) =
     (if form_unreserved c then c # form_encode (d # ds)
      else if c = 0x20 then 0x2B # form_encode (d # ds)
      else if is_lead c then
        (if is_trail d then percent_utf8 (pair_code_point c d) @ form_encode ds
         else percent_utf8 0xFFFD @ form_encode (d # ds))
      else if is_trail c then percent_utf8 0xFFFD @ form_encode (d # ds)
      else percent_utf8 (unat c) @ form_encode (d # ds))"

fun URLSearchParams_toString :: "(jsstring \<times> jsstring) list \<Rightarrow> jsstring" where
  "URLSearchParams_toString [] = []"
| "URLSearchParams_toString [(k, v)] = form_encode k @ [0x3D] @ form_encode v"
| "URLSearchParams_toString ((k, v) # p # ps) =
     form_encode k @ [0x3D] @ form_encode v @ [0x26] @ URLSearchParams_toString (p # ps)"

section \<open>The upstream call: \<open>makeApiRequest\<close>\<close>

datatype verb = GET | POST

text \<open>
  One outbound request: the URL, the method, the \<open>api-key\<close> header and the value whose
  \<open>JSON.stringify\<close> is the body (\<open>Content-Type\<close> is always \<open>application/json\<close>).
\<close>

record request =
  req_url :: jsstring
  req_method :: verb
  req_api_key :: jsstring
  req_body :: "json option"

text \<open>
  What the network does with a request: \<open>fetch\<close> rejects, or the response arrives with a
  status and \<open>response.json()\<close> either rejects or decodes the body.
\<close>

datatype upstream =
    NetworkFailure error
  | Undecodable nat error
  | Decoded nat json

type_synonym fetch = "request \<Rightarrow> upstream"

definition API_BASE_URL :: jsstring where
  "API_BASE_URL = js ''https://apiv3.creatordb.app''"

definition ok :: "nat \<Rightarrow> bool" where
  "ok st \<longleftrightarrow> 200 \<le> st \<and> st \<le> 299"

text \<open>\<open>!response.ok || data.success === false\<close>, the right operand read only when needed.\<close>

definition failed :: "nat \<Rightarrow> json \<Rightarrow> error + bool" where
  "failed st data =
     (if \<not> ok st then Inr True
      else and_then (getProp data (js ''success'')) (\<lambda>v. Inr (v = Some (JBool False))))"

text \<open>\<open>a || rest\<close>: \<open>a\<close> when it is truthy, otherwise \<open>rest\<close>.\<close>

definition or_else :: "json option \<Rightarrow> error + json \<Rightarrow> error + json" where
  "or_else a rest = (case a of None \<Rightarrow> rest | Some x \<Rightarrow> if truthy (Some x) then Inr x else rest)"

text \<open>\<open>data.errorDescription || data.message || `API Error: ${response.status}`\<close>\<close>

definition error_text :: "nat \<Rightarrow> json \<Rightarrow> error + json" where
  "error_text st data =
     and_then (getProp data (js ''errorDescription'')) (\<lambda>ed.
       or_else ed
         (and_then (getProp data (js ''message'')) (\<lambda>m.
            or_else m (Inr (JStr (js ''API Error: '' @ decimal st))))))"

text \<open>
  \<open>makeApiRequest\<close> of \<open>index.ts\<close> and of the first \<open>server.ts\<close>. It returns the decoded
  body or the error thrown, and the outbound requests issued (always exactly one).
\<close>

definition makeApiRequest ::
  "jsstring \<Rightarrow> fetch \<Rightarrow> jsstring \<Rightarrow> verb \<Rightarrow> json option \<Rightarrow> (error + json) \<times> request list" where
  "makeApiRequest API_KEY net endpoint m b =
     (let rq = \<lparr>req_url = API_BASE_URL @ endpoint, req_method = m, req_api_key = API_KEY,
                req_body = (if truthy b \<and> m = POST then b else None)\<rparr>
      in ((case net rq of
             NetworkFailure e \<Rightarrow> Inl e
           | Undecodable st e \<Rightarrow> Inl e
           | Decoded st data \<Rightarrow>
               and_then (failed st data) (\<lambda>f.
                 if f then
                   and_then (error_text st data) (\<lambda>x.
                     and_then (ToString x) (\<lambda>msg. Inl (Error msg)))
                 else Inr data)),
          [rq]))"

text \<open>
  \<open>makeApiRequest\<close> of the second \<open>server.ts\<close>: the key is checked on every call, and an
  upstream failure is an \<open>ApiError\<close> that carries \<open>response.status\<close>.
\<close>

definition key_required :: error where
  "key_required = ApiError (js ''CREATORDB_API_KEY environment variable is required'') 500"

definition makeApiRequest2 ::
  "jsstring option \<Rightarrow> fetch \<Rightarrow> jsstring \<Rightarrow> verb \<Rightarrow> json option \<Rightarrow> (error + json) \<times> request list" where
  "makeApiRequest2 API_KEY net endpoint m b =
     (case API_KEY of
        None \<Rightarrow> (Inl key_required, [])
      | Some k \<Rightarrow>
          if k = [] then (Inl key_required, [])
          else
            (let rq = \<lparr>req_url = API_BASE_URL @ endpoint, req_method = m, req_api_key = k,
                       req_body = (if truthy b \<and> m = POST then b else None)\<rparr>
             in ((case net rq of
                    NetworkFailure e \<Rightarrow> Inl e
                  | Undecodable st e \<Rightarrow> Inl e
                  | Decoded st data \<Rightarrow>
                      and_then (failed st data) (\<lambda>f.
                        if f then
                          and_then (error_text st data) (\<lambda>x.
                            and_then (ToString x) (\<lambda>msg. Inl (ApiError msg st)))
                        else Inr data)),
                 [rq])))"

type_synonym api = "jsstring \<Rightarrow> verb \<Rightarrow> json option \<Rightarrow> (error + json) \<times> request list"

section \<open>Building the upstream request of each operation\<close>

text \<open>
  How a value is put into the path: \<open>Raw\<close> is \<open>`${v}`\<close>, \<open>Encode\<close> is
  \<open>encodeURIComponent(String(v))\<close>, \<open>Sanitize\<close> is \<open>sanitizeId(String(v))\<close>.
\<close>

datatype encoder = Raw | Encode | Sanitize

fun interpolate :: "encoder \<Rightarrow> json option \<Rightarrow> error + jsstring" where
  "interpolate Raw v = ToString_opt v"
| "interpolate Encode v = and_then (ToString_opt v) encodeURIComponent"
| "interpolate Sanitize v = and_then (ToString_opt v) sanitizeId"

definition id_endpoint :: "encoder \<Rightarrow> jsstring \<Rightarrow> jsstring \<Rightarrow> json option \<Rightarrow> error + jsstring" where
  "id_endpoint enc path p v =
     and_then (interpolate enc v) (\<lambda>s. Inr (path @ js ''?'' @ p @ js ''='' @ s))"

text \<open>\<open>if (src.k) params.append("k", String(src.k))\<close>\<close>

definition append_if :: "(jsstring \<Rightarrow> json option) \<Rightarrow> jsstring \<Rightarrow> error + (jsstring \<times> jsstring) list" where
  "append_if src k =
     (if truthy (src k) then and_then (ToString_opt (src k)) (\<lambda>s. Inr [(k, s)]) else Inr [])"

definition usage_params :: "(jsstring \<Rightarrow> json option) \<Rightarrow> error + (jsstring \<times> jsstring) list" where
  "usage_params src =
     and_then (append_if src (js ''start'')) (\<lambda>p1.
       and_then (append_if src (js ''end'')) (\<lambda>p2. Inr (p1 @ p2)))"

text \<open>\<open>`/usage${queryString ? `?${queryString}` : ""}`\<close>\<close>

definition usage_endpoint :: "(jsstring \<Rightarrow> json option) \<Rightarrow> error + jsstring" where
  "usage_endpoint src =
     and_then (usage_params src) (\<lambda>params.
       (let queryString = URLSearchParams_toString params
        in Inr (js ''/usage'' @ (if queryString \<noteq> [] then js ''?'' @ queryString else []))))"

text \<open>
  A property of an object literal as \<open>JSON.stringify\<close> writes it: one with the value
  \<open>undefined\<close> is left out.
\<close>

definition field :: "jsstring \<Rightarrow> json option \<Rightarrow> object" where
  "field k v = (case v of None \<Rightarrow> [] | Some x \<Rightarrow> [(k, x)])"

text \<open>A destructuring default \<open>{ k = d }\<close> replaces \<open>undefined\<close> only; \<open>v || d\<close> replaces every falsy value.\<close>

definition with_default :: "json option \<Rightarrow> json \<Rightarrow> json option" where
  "with_default v d = (case v of None \<Rightarrow> Some d | Some x \<Rightarrow> Some x)"

definition or_default :: "json option \<Rightarrow> json \<Rightarrow> json option" where
  "or_default v d = (if truthy v then v else Some d)"

text \<open>
  \<open>const searchBody = { filters, pageSize, offset };
  if (sortBy) searchBody.sortBy = sortBy;
  if (desc !== undefined) searchBody.desc = desc;\<close>
\<close>

definition searchBody ::
  "json option \<Rightarrow> json option \<Rightarrow> json option \<Rightarrow> json option \<Rightarrow> json option \<Rightarrow> object" where
  "searchBody filters pageSize offset sortBy desc =
     field (js ''filters'') filters @ field (js ''pageSize'') pageSize @ field (js ''offset'') offset
     @ (if truthy sortBy then field (js ''sortBy'') sortBy else [])
     @ (if desc \<noteq> None then field (js ''desc'') desc else [])"

text \<open>When building the endpoint throws, no call is made.\<close>

definition run :: "api \<Rightarrow> error + jsstring \<Rightarrow> (error + json) \<times> request list" where
  "run call endpoint = (case endpoint of Inl e \<Rightarrow> (Inl e, []) | Inr ep \<Rightarrow> call ep GET None)"

section \<open>The HTTP shell (\<open>server.ts\<close>, both variants)\<close>

record response =
  res_status :: nat
  res_body :: json

text \<open>
  An incoming request as the handlers see it: \<open>req.query\<close> and \<open>req.body\<close> are objects
  (\<open>express.json()\<close> hands over nothing else), given by their properties.
\<close>

record http_request =
  http_method :: verb
  http_path :: jsstring
  query :: object
  body :: object

text \<open>\<open>{ success: false, error: m }\<close>\<close>

definition failure :: "jsstring \<Rightarrow> json" where
  "failure m = JObj [(js ''success'', JBool False), (js ''error'', JStr m)]"

text \<open>\<open>return res.status(400).json({ success: false, error: "p is required" })\<close>\<close>

definition bad_request :: "jsstring \<Rightarrow> response \<times> request list" where
  "bad_request p = (\<lparr>res_status = 400, res_body = failure (p @ js '' is required'')\<rparr>, [])"

text \<open>The \<open>catch\<close> branch of every handler of the first variant.\<close>

definition catch500 :: "error \<Rightarrow> response" where
  "catch500 e = \<lparr>res_status = 500, res_body = failure (message e)\<rparr>"

text \<open>The \<open>catch\<close> branch of every handler of the second variant.\<close>

definition handleError :: "error \<Rightarrow> response" where
  "handleError e =
     (case e of
        ApiError m st \<Rightarrow> \<lparr>res_status = st, res_body = failure m\<rparr>
      | _ \<Rightarrow> \<lparr>res_status = 500, res_body = failure (message e)\<rparr>)"

text \<open>\<open>res.json(result)\<close> when the \<open>try\<close> block ends, the \<open>catch\<close> branch when it throws.\<close>

definition reply :: "(error \<Rightarrow> response) \<Rightarrow> (error + json) \<times> request list \<Rightarrow> response \<times> request list" where
  "reply on_error r =
     (case r of
        (Inl e, cs) \<Rightarrow> (on_error e, cs)
      | (Inr v, cs) \<Rightarrow> (\<lparr>res_status = 200, res_body = v\<rparr>, cs))"

text \<open>
  The handlers come in five shapes. The two variants differ in \<open>makeApiRequest\<close> (\<open>call\<close>),
  in the \<open>catch\<close> branch (\<open>on_error\<close>) and in how an identifier is put into the path.
\<close>

datatype handler =
    Usage
  | ById encoder jsstring jsstring
  | Search jsstring
  | Nls jsstring
  | Plain jsstring

definition http_usage :: "api \<Rightarrow> (error \<Rightarrow> response) \<Rightarrow> http_request \<Rightarrow> response \<times> request list" where
  "http_usage call on_error rq = reply on_error (run call (usage_endpoint (get (query rq))))"

definition http_by_id ::
  "api \<Rightarrow> (error \<Rightarrow> response) \<Rightarrow> encoder \<Rightarrow> jsstring \<Rightarrow> jsstring \<Rightarrow> http_request \<Rightarrow> response \<times> request list" where
  "http_by_id call on_error enc path p rq =
     (let v = get (query rq) p
      in if \<not> truthy v then bad_request p
         else reply on_error (run call (id_endpoint enc path p v)))"

definition http_search :: "api \<Rightarrow> (error \<Rightarrow> response) \<Rightarrow> jsstring \<Rightarrow> http_request \<Rightarrow> response \<times> request list" where
  "http_search call on_error path rq =
     (let filters = get (body rq) (js ''filters'');
          pageSize = with_default (get (body rq) (js ''pageSize'')) (JNum 20);
          offset = with_default (get (body rq) (js ''offset'')) (JNum 0);
          sortBy = get (body rq) (js ''sortBy'');
          desc = with_default (get (body rq) (js ''desc'')) (JBool True)
      in if \<not> truthy filters then bad_request (js ''filters'')
         else reply on_error
           (call path POST (Some (JObj (searchBody filters pageSize offset sortBy desc)))))"

definition http_nls :: "api \<Rightarrow> (error \<Rightarrow> response) \<Rightarrow> jsstring \<Rightarrow> http_request \<Rightarrow> response \<times> request list" where
  "http_nls call on_error path rq =
     (let q = get (body rq) (js ''query'');
          pageSize = with_default (get (body rq) (js ''pageSize'')) (JNum 20);
          offset = with_default (get (body rq) (js ''offset'')) (JNum 0)
      in if \<not> truthy q then bad_request (js ''query'')
         else reply on_error
           (call path POST
              (Some (JObj (field (js ''query'') q @ field (js ''pageSize'') pageSize
                 @ field (js ''offset'') offset)))))"

definition http_plain :: "api \<Rightarrow> (error \<Rightarrow> response) \<Rightarrow> jsstring \<Rightarrow> response \<times> request list" where
  "http_plain call on_error path = reply on_error (call path GET None)"

fun http_handle :: "api \<Rightarrow> (error \<Rightarrow> response) \<Rightarrow> handler \<Rightarrow> http_request \<Rightarrow> response \<times> request list" where
  "http_handle call on_error Usage rq = http_usage call on_error rq"
| "http_handle call on_error (ById enc path p) rq = http_by_id call on_error enc path p rq"
| "http_handle call on_error (Search path) rq = http_search call on_error path rq"
| "http_handle call on_error (Nls path) rq = http_nls call on_error path rq"
| "http_handle call on_error (Plain path) rq = http_plain call on_error path"

text \<open>
  The routes of \<open>server.ts\<close> that call the upstream, in the order of the file. \<open>uid\<close> is
  the encoder of the \<open>uniqueId\<close> routes, \<open>oth\<close> that of the \<open>channelId\<close> and \<open>contentId\<close>
  routes: the first variant interpolates both raw; the second uses \<open>sanitizeId\<close> for
  \<open>uniqueId\<close> and \<open>encodeURIComponent\<close> for the others.
\<close>

definition routes :: "encoder \<Rightarrow> encoder \<Rightarrow> ((verb \<times> jsstring) \<times> handler) list" where
  "routes uid oth =
     [((GET, js ''/api/usage''), Usage),
      ((GET, js ''/api/instagram/profile''), ById uid (js ''/instagram/profile'') (js ''uniqueId'')),
      ((GET, js ''/api/instagram/contact''), ById uid (js ''/instagram/contact'') (js ''uniqueId'')),
      ((GET, js ''/api/instagram/content-detail''), ById oth (js ''/instagram/content-detail'') (js ''contentId'')),
      ((GET, js ''/api/instagram/performance''), ById uid (js ''/instagram/performance'') (js ''uniqueId'')),
      ((GET, js ''/api/instagram/performance-history''), ById uid (js ''/instagram/performance-history'') (js ''uniqueId'')),
      ((GET, js ''/api/instagram/sponsorship''), ById uid (js ''/instagram/sponsorship'') (js ''uniqueId'')),
      ((GET, js ''/api/instagram/audience''), ById uid (js ''/instagram/audience'') (js ''uniqueId'')),
      ((POST, js ''/api/instagram/search''), Search (js ''/instagram/search'')),
      ((POST, js ''/api/instagram/natural-language-search''), Nls (js ''/instagram/nls'')),
      ((GET, js ''/api/instagram/niches''), Plain (js ''/instagram/niches'')),
      ((GET, js ''/api/youtube/profile''), ById oth (js ''/youtube/profile'') (js ''channelId'')),
      ((POST, js ''/api/youtube/search''), Search (js ''/youtube/search'')),
      ((GET, js ''/api/youtube/performance''), ById oth (js ''/youtube/performance'') (js ''channelId'')),
      ((GET, js ''/api/youtube/performance-history''), ById oth (js ''/youtube/performance-history'') (js ''channelId'')),
      ((GET, js ''/api/youtube/content-detail''), ById oth (js ''/youtube/content-detail'') (js ''contentId'')),
      ((GET, js ''/api/youtube/sponsorship''), ById oth (js ''/youtube/sponsorship'') (js ''channelId'')),
      ((GET, js ''/api/youtube/contact''), ById oth (js ''/youtube/contact'') (js ''channelId'')),
      ((GET, js ''/api/youtube/audience''), ById oth (js ''/youtube/audience'') (js ''channelId'')),
      ((POST, js ''/api/youtube/natural-language-search''), Nls (js ''/youtube/nls'')),
      ((GET, js ''/api/youtube/topics''), Plain (js ''/youtube/topics'')),
      ((GET, js ''/api/youtube/niches''), Plain (js ''/youtube/niches'')),
      ((GET, js ''/api/tiktok/profile''), ById uid (js ''/tiktok/profile'') (js ''uniqueId'')),
      ((POST, js ''/api/tiktok/search''), Search (js ''/tiktok/search'')),
      ((GET, js ''/api/tiktok/contact''), ById uid (js ''/tiktok/contact'') (js ''uniqueId'')),
      ((GET, js ''/api/tiktok/performance''), ById uid (js ''/tiktok/performance'') (js ''uniqueId'')),
      ((GET, js ''/api/tiktok/performance-history''), ById uid (js ''/tiktok/performance-history'') (js ''uniqueId'')),
      ((GET, js ''/api/tiktok/content-detail''), ById oth (js ''/tiktok/content-detail'') (js ''contentId'')),
      ((GET, js ''/api/tiktok/audience''), ById uid (js ''/tiktok/audience'') (js ''uniqueId'')),
      ((POST, js ''/api/tiktok/natural-language-search''), Nls (js ''/tiktok/nls'')),
      ((GET, js ''/api/tiktok/niches''), Plain (js ''/tiktok/niches''))]"

definition routes1 :: "((verb \<times> jsstring) \<times> handler) list" where
  "routes1 = routes Raw Raw"

definition routes2 :: "((verb \<times> jsstring) \<times> handler) list" where
  "routes2 = routes Sanitize Encode"

section \<open>The tool shell (\<open>index.ts\<close>)\<close>

definition tool_search :: "api \<Rightarrow> jsstring \<Rightarrow> object \<Rightarrow> (error + json) \<times> request list" where
  "tool_search call path args =
     call path POST
       (Some (JObj (searchBody (get args (js ''filters''))
          (or_default (get args (js ''pageSize'')) (JNum 20))
          (or_default (get args (js ''offset'')) (JNum 0))
          (get args (js ''sortBy''))
          (get args (js ''desc'')))))"

definition tool_nls :: "api \<Rightarrow> jsstring \<Rightarrow> object \<Rightarrow> (error + json) \<times> request list" where
  "tool_nls call path args =
     call path POST
       (Some (JObj (field (js ''query'') (get args (js ''query''))
          @ field (js ''pageSize'') (or_default (get args (js ''pageSize'')) (JNum 20))
          @ field (js ''offset'') (or_default (get args (js ''offset'')) (JNum 0)))))"

fun tool_case :: "api \<Rightarrow> handler \<Rightarrow> object \<Rightarrow> (error + json) \<times> request list" where
  "tool_case call Usage args = run call (usage_endpoint (get args))"
| "tool_case call (ById enc path p) args = run call (id_endpoint enc path p (get args p))"
| "tool_case call (Search path) args = tool_search call path args"
| "tool_case call (Nls path) args = tool_nls call path args"
| "tool_case call (Plain path) args = call path GET None"

text \<open>The cases of the \<open>switch (name)\<close> of \<open>handleToolCall\<close>, in the order of the file.\<close>

definition tool_cases :: "(jsstring \<times> handler) list" where
  "tool_cases =
     [(js ''get_api_usage'', Usage),
      (js ''instagram_get_profile'', ById Raw (js ''/instagram/profile'') (js ''uniqueId'')),
      (js ''instagram_get_contact'', ById Raw (js ''/instagram/contact'') (js ''uniqueId'')),
      (js ''instagram_get_content_detail'', ById Raw (js ''/instagram/content-detail'') (js ''contentId'')),
      (js ''instagram_get_performance'', ById Raw (js ''/instagram/performance'') (js ''uniqueId'')),
      (js ''instagram_get_performance_history'', ById Raw (js ''/instagram/performance-history'') (js ''uniqueId'')),
      (js ''instagram_get_sponsorship'', ById Raw (js ''/instagram/sponsorship'') (js ''uniqueId'')),
      (js ''instagram_get_audience'', ById Raw (js ''/instagram/audience'') (js ''uniqueId'')),
      (js ''instagram_search'', Search (js ''/instagram/search'')),
      (js ''instagram_natural_language_search'', Nls (js ''/instagram/nls'')),
      (js ''instagram_get_niches'', Plain (js ''/instagram/niches'')),
      (js ''youtube_get_profile'', ById Raw (js ''/youtube/profile'') (js ''channelId'')),
      (js ''youtube_search'', Search (js ''/youtube/search'')),
      (js ''youtube_get_performance'', ById Raw (js ''/youtube/performance'') (js ''channelId'')),
      (js ''youtube_get_performance_history'', ById Raw (js ''/youtube/performance-history'') (js ''channelId'')),
      (js ''youtube_get_content_detail'', ById Raw (js ''/youtube/content-detail'') (js ''contentId'')),
      (js ''youtube_get_sponsorship'', ById Raw (js ''/youtube/sponsorship'') (js ''channelId'')),
      (js ''youtube_get_contact'', ById Raw (js ''/youtube/contact'') (js ''channelId'')),
      (js ''youtube_get_audience'', ById Raw (js ''/youtube/audience'') (js ''channelId'')),
      (js ''youtube_natural_language_search'', Nls (js ''/youtube/nls'')),
      (js ''youtube_get_topics'', Plain (js ''/youtube/topics'')),
      (js ''youtube_get_niches'', Plain (js ''/youtube/niches'')),
      (js ''tiktok_get_profile'', ById Raw (js ''/tiktok/profile'') (js ''uniqueId'')),
      (js ''tiktok_search'', Search (js ''/tiktok/search'')),
      (js ''tiktok_get_contact'', ById Raw (js ''/tiktok/contact'') (js ''uniqueId'')),
      (js ''tiktok_get_performance'', ById Raw (js ''/tiktok/performance'') (js ''uniqueId'')),
      (js ''tiktok_get_performance_history'', ById Raw (js ''/tiktok/performance-history'') (js ''uniqueId'')),
      (js ''tiktok_get_content_detail'', ById Raw (js ''/tiktok/content-detail'') (js ''contentId'')),
      (js ''tiktok_get_audience'', ById Raw (js ''/tiktok/audience'') (js ''uniqueId'')),
      (js ''tiktok_natural_language_search'', Nls (js ''/tiktok/nls'')),
      (js ''tiktok_get_niches'', Plain (js ''/tiktok/niches''))]"

text \<open>
  \<open>handleToolCall\<close>: the \<open>try\<close> block is the \<open>switch\<close>, whose \<open>default\<close> throws; the
  \<open>catch\<close> branch turns whatever was thrown into \<open>{ success: false, error }\<close>. The value
  returned is the one whose \<open>JSON.stringify\<close> is the text handed back.
\<close>

definition handleToolCall ::
  "jsstring \<Rightarrow> fetch \<Rightarrow> jsstring \<Rightarrow> object \<Rightarrow> (error + json) \<times> request list" where
  "handleToolCall API_KEY net name args =
     (case (case map_of tool_cases name of
              None \<Rightarrow> (Inl (Error (js ''Unknown tool: '' @ name)), [])
            | Some h \<Rightarrow> tool_case (makeApiRequest API_KEY net) h args) of
        (Inl e, cs) \<Rightarrow> (Inr (failure (message e)), cs)
      | (Inr result, cs) \<Rightarrow> (Inr result, cs))"

section \<open>Start-up\<close>

datatype 'k process = Exited nat | Running 'k

text \<open>
  \<open>index.ts\<close> and the first \<open>server.ts\<close>:
  \<open>if (!API_KEY) { console.error(...); process.exit(1); }\<close>
\<close>

definition startup :: "jsstring option \<Rightarrow> jsstring process" where
  "startup env =
     (case env of None \<Rightarrow> Exited 1 | Some k \<Rightarrow> if k = [] then Exited 1 else Running k)"

text \<open>The second \<open>server.ts\<close> has no such check: the application is exported as it is.\<close>

definition startup2 :: "jsstring option \<Rightarrow> jsstring option process" where
  "startup2 env = Running env"

datatype served = NotServing | NoRoute | Replied response "request list"

definition dispatch ::
  "api \<Rightarrow> (error \<Rightarrow> response) \<Rightarrow> ((verb \<times> jsstring) \<times> handler) list \<Rightarrow> http_request \<Rightarrow> served" where
  "dispatch call on_error table rq =
     (case map_of table (http_method rq, http_path rq) of
        None \<Rightarrow> NoRoute
      | Some h \<Rightarrow> (case http_handle call on_error h rq of (res, cs) \<Rightarrow> Replied res cs))"

definition server1 :: "jsstring option \<Rightarrow> fetch \<Rightarrow> http_request \<Rightarrow> served" where
  "server1 env net rq =
     (case startup env of
        Exited c \<Rightarrow> NotServing
      | Running k \<Rightarrow> dispatch (makeApiRequest k net) catch500 routes1 rq)"

definition server2 :: "jsstring option \<Rightarrow> fetch \<Rightarrow> http_request \<Rightarrow> served" where
  "server2 env net rq =
     (case startup2 env of
        Exited c \<Rightarrow> NotServing
      | Running k \<Rightarrow> dispatch (makeApiRequest2 k net) handleError routes2 rq)"

definition tool_server ::
  "jsstring option \<Rightarrow> fetch \<Rightarrow> jsstring \<Rightarrow> object \<Rightarrow> ((error + json) \<times> request list) option" where
  "tool_server env net name args =
     (case startup env of
        Exited c \<Rightarrow> None
      | Running k \<Rightarrow> Some (handleToolCall k net name args))"

section \<open>Predicates used in the statements\<close>

text \<open>An error other than \<open>ApiError\<close>: \<open>handleError\<close> answers it with status 500.\<close>

definition plain :: "error \<Rightarrow> bool" where
  "plain e \<longleftrightarrow> (\<forall>m st. e \<noteq> ApiError m st)"

text \<open>\<open>!API_KEY\<close>: the variable is unset or empty.\<close>

definition absent :: "jsstring option \<Rightarrow> bool" where
  "absent env \<longleftrightarrow> env = None \<or> env = Some []"

text \<open>A reply that is a failure with status 400 or 500, sent without any outbound request.\<close>

definition refused :: "response \<times> request list \<Rightarrow> bool" where
  "refused r \<longleftrightarrow> snd r = [] \<and> (res_status (fst r) = 400 \<or> res_status (fst r) = 500)
     \<and> (\<exists>m. res_body (fst r) = failure m)"

text \<open>Every outbound request of the list has the configured, non-empty key in its \<open>api-key\<close> header.\<close>

definition carries_key :: "jsstring option \<Rightarrow> request list \<Rightarrow> bool" where
  "carries_key env cs = list_all (\<lambda>c. env = Some (req_api_key c) \<and> req_api_key c \<noteq> []) cs"

section \<open>Properties of the percent-encoding\<close>

lemma unreserved_not_surrogate: "unreserved c \<Longrightarrow> \<not> is_lead c \<and> \<not> is_trail c"
  by (auto simp: unreserved_def is_lead_def is_trail_def word_le_nat_alt)

lemma succeeds_prepend [simp]: "succeeds (prepend p r) = succeeds r"
  by (cases r) (simp_all add: prepend_def succeeds_def)

lemma succeeds_simps [simp]: "succeeds (Inr v)" "\<not> succeeds (Inl e)"
  by (simp_all add: succeeds_def)

lemma encodeURIComponent_succeeds: "succeeds (encodeURIComponent s) = isWellFormed s"
  by (induction s rule: encodeURIComponent.induct) (auto dest: unreserved_not_surrogate)

lemma at_not_surrogate: "\<not> is_lead 0x40 \<and> \<not> is_trail 0x40"
  by (simp add: is_lead_def is_trail_def)

lemma isWellFormed_replace: "isWellFormed (replace_leading_at s) = isWellFormed s"
proof (cases s rule: isWellFormed.cases)
  case 1 then show ?thesis by (simp add: replace_leading_at_def)
next
  case (2 c) then show ?thesis using at_not_surrogate by (auto simp: replace_leading_at_def)
next
  case (3 c d ds) then show ?thesis using at_not_surrogate by (auto simp: replace_leading_at_def)
qed

lemma hex_digit_unreserved: "d < 16 \<Longrightarrow> unreserved (hex_digit d)"
proof -
  assume "d < 16"
  then have "d = 0 \<or> d = 1 \<or> d = 2 \<or> d = 3 \<or> d = 4 \<or> d = 5 \<or> d = 6 \<or> d = 7 \<or> d = 8 \<or> d = 9
      \<or> d = 10 \<or> d = 11 \<or> d = 12 \<or> d = 13 \<or> d = 14 \<or> d = 15" by arith
  then show ?thesis by (auto simp: hex_digit_def unreserved_def)
qed

lemma percent_safe: "b < 256 \<Longrightarrow> c \<in> set (percent b) \<Longrightarrow> url_safe c"
  by (auto simp: percent_def url_safe_def intro!: hex_digit_unreserved)

lemma utf8_bytes: "n < 0x110000 \<Longrightarrow> b \<in> set (utf8 n) \<Longrightarrow> b < 256"
  by (auto simp: utf8_def split: if_splits)

lemma percent_utf8_safe: "n < 0x110000 \<Longrightarrow> c \<in> set (percent_utf8 n) \<Longrightarrow> url_safe c"
  by (auto simp: percent_utf8_def dest: utf8_bytes percent_safe)

lemma unat_code_unit: "unat (c::16 word) < 0x110000"
  using unsigned_less[of c, where 'a=nat] by simp

lemma pair_code_point_bound: "is_lead c \<Longrightarrow> is_trail d \<Longrightarrow> pair_code_point c d < 0x110000"
  by (simp add: is_lead_def is_trail_def pair_code_point_def word_le_nat_alt) arith

lemma prepend_Inr: "prepend p r = Inr s \<Longrightarrow> \<exists>t. r = Inr t \<and> s = p @ t"
  by (cases r) (simp_all add: prepend_def)

lemma percent_utf8_unit_safe: "c \<in> set (percent_utf8 (unat (u::16 word))) \<Longrightarrow> url_safe c"
  by (rule percent_utf8_safe[OF unat_code_unit])

lemma percent_utf8_pair_safe:
  "is_lead u \<Longrightarrow> is_trail d \<Longrightarrow> c \<in> set (percent_utf8 (pair_code_point u d)) \<Longrightarrow> url_safe c"
  by (rule percent_utf8_safe[OF pair_code_point_bound])

lemma unreserved_safe: "unreserved c \<Longrightarrow> url_safe c"
  by (simp add: url_safe_def)

lemma encodeURIComponent_safe:
  "encodeURIComponent s = Inr r \<Longrightarrow> c \<in> set r \<Longrightarrow> url_safe c"
proof (induction s arbitrary: r rule: encodeURIComponent.induct)
  case 1 then show ?case by simp
next
  case (2 u)
  then show ?case
    by (auto split: if_splits intro: unreserved_safe percent_utf8_unit_safe)
next
  case (3 u d ds)
  then show ?case
    by (auto split: if_splits dest!: prepend_Inr
          intro: unreserved_safe percent_utf8_unit_safe percent_utf8_pair_safe)
qed


text \<open>
  Claim C3, as stated, at a lone surrogate: \<open>sanitizeId\<close> is not total over all strings,
  \<open>encodeURIComponent\<close> throws \<open>URIError\<close> there.
\<close>

theorem sanitizeId_lone_surrogate:
  "sanitizeId [0xD800] = Inl (URIError (js ''URI malformed''))"
  by (simp add: sanitizeId_def replace_leading_at_def unreserved_def is_lead_def)

text \<open>
  Claim C3, amended: \<open>sanitizeId\<close> returns a string exactly on the well-formed strings
  (every surrogate paired), the empty string included, which gives the empty string. It
  removes one leading \<open>@\<close> and no more: \<open>sanitizeId ("@" + s)\<close> is the percent-encoding
  of \<open>s\<close> itself, and a string that does not start with \<open>@\<close> is percent-encoded as it is.
  Every code unit of the result is an unreserved character or \<open>%\<close>.
  \<open>sanitizeId "@tiktok"\<close> and \<open>sanitizeId "tiktok"\<close> are both the percent-encoded form of
  \<open>"tiktok"\<close>, which is \<open>"tiktok"\<close>.
\<close>

theorem sanitizeId_well_formed:
  "(succeeds (sanitizeId s) \<longleftrightarrow> isWellFormed s)
   \<and> (\<forall>r. sanitizeId s = Inr r \<longrightarrow> (\<forall>c \<in> set r. url_safe c))
   \<and> sanitizeId (0x40 # s) = encodeURIComponent s
   \<and> (take 1 s \<noteq> [0x40] \<longrightarrow> sanitizeId s = encodeURIComponent s)
   \<and> sanitizeId [] = Inr []
   \<and> sanitizeId (js ''@tiktok'') = sanitizeId (js ''tiktok'')
   \<and> sanitizeId (js ''tiktok'') = encodeURIComponent (js ''tiktok'')
   \<and> encodeURIComponent (js ''tiktok'') = Inr (js ''tiktok'')"
proof -
  have a: "succeeds (sanitizeId s) \<longleftrightarrow> isWellFormed s"
    by (simp add: sanitizeId_def encodeURIComponent_succeeds isWellFormed_replace)
  have b: "\<forall>r. sanitizeId s = Inr r \<longrightarrow> (\<forall>c \<in> set r. url_safe c)"
    by (auto simp: sanitizeId_def dest: encodeURIComponent_safe)
  have c: "sanitizeId (0x40 # s) = encodeURIComponent s"
    by (simp add: sanitizeId_def replace_leading_at_def)
  have d: "take 1 s \<noteq> [0x40] \<longrightarrow> sanitizeId s = encodeURIComponent s"
    by (cases s) (simp_all add: sanitizeId_def replace_leading_at_def)
  have e: "sanitizeId [] = Inr []"
    by (simp add: sanitizeId_def replace_leading_at_def)
  have f: "encodeURIComponent (js ''tiktok'') = Inr (js ''tiktok'')"
    by (simp add: js_def unreserved_def prepend_def)
  have g: "sanitizeId (js ''tiktok'') = encodeURIComponent (js ''tiktok'')"
    by (simp add: sanitizeId_def replace_leading_at_def js_def)
  have h: "sanitizeId (js ''@tiktok'') = sanitizeId (js ''tiktok'')"
    by (simp add: sanitizeId_def replace_leading_at_def js_def)
  from a b c d e f g h show ?thesis by blast
qed

theorem sanitizeId_well_formed_witness:
  "isWellFormed (js ''a b'') \<and> take 1 (js ''a b'') \<noteq> [0x40]
   \<and> sanitizeId (js ''a b'') = Inr (js ''a%20b'')
   \<and> sanitizeId (0x40 # js ''a b'') = Inr (js ''a%20b'')
   \<and> list_all url_safe (js ''a%20b'')"
  using sanitizeId_well_formed [of "js ''a b''"]
  by (simp add: js_def sanitizeId_def replace_leading_at_def unreserved_def prepend_def
      is_lead_def is_trail_def percent_utf8_def utf8_def percent_def hex_digit_def url_safe_def)

section \<open>The response classifier\<close>

lemma getProp_not_null: "data \<noteq> JNull \<Longrightarrow> getProp data k = Inr (own data k)"
  by (simp add: getProp_def)

lemma and_then_simps [simp]: "and_then (Inl e) f = Inl e" "and_then (Inr v) f = f v"
  by (simp_all add: and_then_def)

lemma failed_not_null:
  "data \<noteq> JNull \<Longrightarrow> failed st data = Inr (\<not> ok st \<or> own data (js ''success'') = Some (JBool False))"
  by (simp add: failed_def getProp_not_null)

lemma or_else_truthy: "truthy (Some x) \<Longrightarrow> or_else (Some x) rest = Inr x"
  by (simp add: or_else_def)

lemma or_else_falsy: "\<not> truthy a \<Longrightarrow> or_else a rest = rest"
  by (cases a) (simp_all add: or_else_def)

lemma error_text_cases:
  assumes "data \<noteq> JNull"
  shows "own data (js ''errorDescription'') = Some x \<Longrightarrow> truthy (Some x) \<Longrightarrow> error_text st data = Inr x"
    and "\<not> truthy (own data (js ''errorDescription'')) \<Longrightarrow> own data (js ''message'') = Some y \<Longrightarrow> truthy (Some y)
          \<Longrightarrow> error_text st data = Inr y"
    and "\<not> truthy (own data (js ''errorDescription'')) \<Longrightarrow> \<not> truthy (own data (js ''message''))
          \<Longrightarrow> error_text st data = Inr (JStr (js ''API Error: '' @ decimal st))"
  using assms by (simp_all add: error_text_def getProp_not_null or_else_truthy or_else_falsy)

lemma error_text_total: "data \<noteq> JNull \<Longrightarrow> \<exists>x. error_text st data = Inr x"
  by (cases "truthy (own data (js ''errorDescription''))"; cases "truthy (own data (js ''message''))";
      cases "own data (js ''errorDescription'')"; cases "own data (js ''message'')")
     (simp_all add: error_text_def getProp_not_null or_else_def)

lemma makeApiRequest_Decoded:
  "data \<noteq> JNull \<Longrightarrow>
   fst (makeApiRequest k (\<lambda>rq. Decoded st data) endpoint m b) =
     (if \<not> ok st \<or> own data (js ''success'') = Some (JBool False)
      then and_then (error_text st data) (\<lambda>x. and_then (ToString x) (\<lambda>msg. Inl (Error msg)))
      else Inr data)"
  by (simp add: makeApiRequest_def Let_def failed_not_null)

lemma thrown_fails: "\<not> succeeds (and_then r (\<lambda>x. and_then (g x) (\<lambda>msg. Inl (h msg))))"
  by (cases r) (auto simp: succeeds_def and_then_def split: sum.splits)

text \<open>
  Claim C1, amended. When the upstream answers with status \<open>st\<close> and a decoded body other
  than \<open>null\<close>, \<open>makeApiRequest\<close> throws exactly when the status is outside 200..299 or the
  body's \<open>success\<close> is \<open>false\<close>; otherwise it returns the decoded body unchanged. When it
  throws, the message is the string form of \<open>errorDescription\<close> if that is truthy, else of
  \<open>message\<close> if that is truthy, else \<open>API Error: <status>\<close>.
\<close>

theorem makeApiRequest_classifier:
  assumes "data \<noteq> JNull"
  shows "(\<not> succeeds (fst (makeApiRequest k (\<lambda>rq. Decoded st data) endpoint m b))
            \<longleftrightarrow> st < 200 \<or> 299 < st \<or> own data (js ''success'') = Some (JBool False))
    \<and> (succeeds (fst (makeApiRequest k (\<lambda>rq. Decoded st data) endpoint m b))
          \<longrightarrow> fst (makeApiRequest k (\<lambda>rq. Decoded st data) endpoint m b) = Inr data)
    \<and> (\<not> succeeds (fst (makeApiRequest k (\<lambda>rq. Decoded st data) endpoint m b)) \<longrightarrow>
          (\<forall>x t. own data (js ''errorDescription'') = Some x \<and> truthy (Some x) \<and> ToString x = Inr t
              \<longrightarrow> fst (makeApiRequest k (\<lambda>rq. Decoded st data) endpoint m b) = Inl (Error t))
        \<and> (\<forall>x t. \<not> truthy (own data (js ''errorDescription'')) \<and> own data (js ''message'') = Some x
                 \<and> truthy (Some x) \<and> ToString x = Inr t
              \<longrightarrow> fst (makeApiRequest k (\<lambda>rq. Decoded st data) endpoint m b) = Inl (Error t))
        \<and> (\<not> truthy (own data (js ''errorDescription'')) \<and> \<not> truthy (own data (js ''message''))
              \<longrightarrow> fst (makeApiRequest k (\<lambda>rq. Decoded st data) endpoint m b)
                    = Inl (Error (js ''API Error: '' @ decimal st))))"
proof -
  let ?r = "fst (makeApiRequest k (\<lambda>rq. Decoded st data) endpoint m b)"
  let ?bad = "\<not> ok st \<or> own data (js ''success'') = Some (JBool False)"
  have r: "?r = (if ?bad
      then and_then (error_text st data) (\<lambda>x. and_then (ToString x) (\<lambda>msg. Inl (Error msg)))
      else Inr data)"
    using assms by (rule makeApiRequest_Decoded)
  have iff: "\<not> succeeds ?r \<longleftrightarrow> ?bad"
    unfolding r by (simp add: thrown_fails)
  have range: "\<not> ok st \<longleftrightarrow> st < 200 \<or> 299 < st"
    by (auto simp: ok_def)
  have good: "succeeds ?r \<longrightarrow> ?r = Inr data"
    using iff r by auto
  have ed: "\<forall>x t. own data (js ''errorDescription'') = Some x \<and> truthy (Some x) \<and> ToString x = Inr t
              \<longrightarrow> ?r = Inl (Error t)" if "\<not> succeeds ?r"
    using that iff r error_text_cases(1)[OF assms] by auto
  have msg: "\<forall>x t. \<not> truthy (own data (js ''errorDescription'')) \<and> own data (js ''message'') = Some x
                 \<and> truthy (Some x) \<and> ToString x = Inr t \<longrightarrow> ?r = Inl (Error t)" if "\<not> succeeds ?r"
    using that iff r error_text_cases(2)[OF assms] by auto
  have gen: "\<not> truthy (own data (js ''errorDescription'')) \<and> \<not> truthy (own data (js ''message''))
              \<longrightarrow> ?r = Inl (Error (js ''API Error: '' @ decimal st))" if "\<not> succeeds ?r"
    using that iff r error_text_cases(3)[OF assms] by auto
  show ?thesis
    using iff range good ed msg gen by blast
qed

text \<open>
  Claim C1, as stated, at the body \<open>null\<close> with status 200: the status is in range and no
  \<open>success\<close> field is \<open>false\<close>, yet reading \<open>data.success\<close> throws and the call fails.
\<close>

theorem makeApiRequest_null_body:
  "\<not> succeeds (fst (makeApiRequest (js ''k'') (\<lambda>rq. Decoded 200 JNull) (js ''/usage'') GET None))
   \<and> ok 200 \<and> own JNull (js ''success'') = None"
  by (simp add: makeApiRequest_def failed_def getProp_def ok_def)

theorem makeApiRequest_classifier_witness:
  "fst (makeApiRequest (js ''k'')
      (\<lambda>rq. Decoded 429 (JObj [(js ''success'', JBool False), (js ''errorDescription'', JStr (js ''quota exceeded''))]))
      (js ''/usage'') GET None) = Inl (Error (js ''quota exceeded''))
   \<and> fst (makeApiRequest (js ''k'')
      (\<lambda>rq. Decoded 500 (JObj [(js ''errorDescription'', JStr []), (js ''message'', JStr (js ''boom''))]))
      (js ''/usage'') GET None) = Inl (Error (js ''boom''))
   \<and> fst (makeApiRequest (js ''k'') (\<lambda>rq. Decoded 400 (JObj [])) (js ''/usage'') GET None)
        = Inl (Error (js ''API Error: 400''))
   \<and> fst (makeApiRequest (js ''k'')
      (\<lambda>rq. Decoded 200 (JObj [(js ''success'', JBool True), (js ''data'', JArr [JNum 1])]))
      (js ''/usage'') GET None) = Inr (JObj [(js ''success'', JBool True), (js ''data'', JArr [JNum 1])])"
  using
    makeApiRequest_classifier [of "JObj [(js ''success'', JBool False), (js ''errorDescription'', JStr (js ''quota exceeded''))]"
      "js ''k''" 429 "js ''/usage''" GET None]
    makeApiRequest_classifier [of "JObj [(js ''errorDescription'', JStr []), (js ''message'', JStr (js ''boom''))]"
      "js ''k''" 500 "js ''/usage''" GET None]
    makeApiRequest_classifier [of "JObj []" "js ''k''" 400 "js ''/usage''" GET None]
    makeApiRequest_classifier [of "JObj [(js ''success'', JBool True), (js ''data'', JArr [JNum 1])]"
      "js ''k''" 200 "js ''/usage''" GET None]
  by (simp add: get_def js_def decimal.simps)

section \<open>The shells: status codes, missing parameters, totality\<close>

lemma catch500_status: "res_status (catch500 e) = 500"
  by (simp add: catch500_def)

lemma handleError_ApiError: "handleError (ApiError m st) = \<lparr>res_status = st, res_body = failure m\<rparr>"
  by (simp add: handleError_def)

text \<open>
  Claim C2 at a failing input, on the first \<open>server.ts\<close>: \<open>GET /api/usage\<close> while the
  upstream answers 429 with \<open>{ success: false, errorDescription: "quota exceeded" }\<close>. The
  reply has status 500, not 429.
\<close>

theorem first_variant_replies_500:
  "server1 (Some (js ''k''))
     (\<lambda>rq. Decoded 429 (JObj [(js ''success'', JBool False), (js ''errorDescription'', JStr (js ''quota exceeded''))]))
     \<lparr>http_method = GET, http_path = js ''/api/usage'', query = [], body = []\<rparr>
   = Replied \<lparr>res_status = 500, res_body = failure (js ''quota exceeded'')\<rparr>
       [\<lparr>req_url = js ''https://apiv3.creatordb.app/usage'', req_method = GET, req_api_key = js ''k'',
          req_body = None\<rparr>]"
  by code_simp

text \<open>The second \<open>server.ts\<close> on the same input replies with the upstream's 429.\<close>

lemma second_variant_replies_429:
  "server2 (Some (js ''k''))
     (\<lambda>rq. Decoded 429 (JObj [(js ''success'', JBool False), (js ''errorDescription'', JStr (js ''quota exceeded''))]))
     \<lparr>http_method = GET, http_path = js ''/api/usage'', query = [], body = []\<rparr>
   = Replied \<lparr>res_status = 429, res_body = failure (js ''quota exceeded'')\<rparr>
       [\<lparr>req_url = js ''https://apiv3.creatordb.app/usage'', req_method = GET, req_api_key = js ''k'',
          req_body = None\<rparr>]"
  by code_simp

text \<open>
  Claim C5 at a failing input, in the tool shell: \<open>instagram_get_profile\<close> called without its
  required \<open>uniqueId\<close>. No check is made; one outbound request is issued, with the text
  \<open>undefined\<close> in the place of the identifier.
\<close>

theorem handleToolCall_missing_uniqueId:
  "snd (handleToolCall k net (js ''instagram_get_profile'') []) =
     [\<lparr>req_url = js ''https://apiv3.creatordb.app/instagram/profile?uniqueId=undefined'',
        req_method = GET, req_api_key = k, req_body = None\<rparr>]"
  by (simp add: handleToolCall_def tool_cases_def run_def id_endpoint_def ToString_opt_def get_def
      makeApiRequest_def API_BASE_URL_def js_def Let_def split: prod.splits sum.splits)

text \<open>The HTTP shell, in both variants, does check: a missing or falsy parameter is a 400 and no call.\<close>

lemma http_missing_parameter:
  "\<not> truthy (get (query rq) p) \<Longrightarrow>
     http_by_id call on_error enc path p rq
       = (\<lparr>res_status = 400, res_body = failure (p @ js '' is required'')\<rparr>, [])"
  "\<not> truthy (get (body rq) (js ''filters'')) \<Longrightarrow>
     http_search call on_error path rq
       = (\<lparr>res_status = 400, res_body = failure (js ''filters is required'')\<rparr>, [])"
  "\<not> truthy (get (body rq) (js ''query'')) \<Longrightarrow>
     http_nls call on_error path rq
       = (\<lparr>res_status = 400, res_body = failure (js ''query is required'')\<rparr>, [])"
  by (simp_all add: http_by_id_def http_search_def http_nls_def bad_request_def Let_def js_def)






section \<open>The body of a search call\<close>

lemma calls_makeApiRequest:
  "snd (makeApiRequest k net endpoint m b) =
     [\<lparr>req_url = API_BASE_URL @ endpoint, req_method = m, req_api_key = k,
        req_body = (if truthy b \<and> m = POST then b else None)\<rparr>]"
  by (simp add: makeApiRequest_def Let_def)

lemma calls_makeApiRequest2:
  "k \<noteq> [] \<Longrightarrow> snd (makeApiRequest2 (Some k) net endpoint m b) =
     [\<lparr>req_url = API_BASE_URL @ endpoint, req_method = m, req_api_key = k,
        req_body = (if truthy b \<and> m = POST then b else None)\<rparr>]"
  by (simp add: makeApiRequest2_def Let_def)

lemma calls_reply: "snd (reply on_error r) = snd r"
  by (cases r) (simp add: reply_def split: sum.splits)

lemma search_keys:
  "js ''filters'' \<noteq> js ''pageSize''" "js ''filters'' \<noteq> js ''offset''" "js ''filters'' \<noteq> js ''sortBy''"
  "js ''filters'' \<noteq> js ''desc''" "js ''pageSize'' \<noteq> js ''offset''" "js ''pageSize'' \<noteq> js ''sortBy''"
  "js ''pageSize'' \<noteq> js ''desc''" "js ''offset'' \<noteq> js ''sortBy''" "js ''offset'' \<noteq> js ''desc''"
  "js ''sortBy'' \<noteq> js ''desc''"
  by (simp_all add: js_def)

lemma get_field_same: "get (field k v @ rest) k = (case v of None \<Rightarrow> get rest k | Some x \<Rightarrow> Some x)"
  by (simp add: get_def field_def split: option.splits)

lemma get_field_other: "k' \<noteq> k \<Longrightarrow> get (field k' v @ rest) k = get rest k"
  by (simp add: get_def field_def split: option.splits)

lemma get_field_last: "get (field k v) k = v" "k' \<noteq> k \<Longrightarrow> get (field k' v) k = None"
  by (simp_all add: get_def field_def split: option.splits)

lemma get_Nil: "get [] k = None"
  by (simp add: get_def)

lemma get_field_opt: "get ((if c then field k v else []) @ rest) k = (if c \<and> v \<noteq> None then v else get rest k)"
  by (auto simp: get_def field_def split: option.splits)

lemma get_field_opt_other: "k' \<noteq> k \<Longrightarrow> get ((if c then field k' v else []) @ rest) k = get rest k"
  by (auto simp: get_def field_def split: option.splits)

lemma get_field_opt_last: "get (if c then field k v else []) k = (if c then v else None)"
  "k' \<noteq> k \<Longrightarrow> get (if c then field k' v else []) k = None"
  by (auto simp: get_def field_def split: option.splits)

lemma truthy_Some: "truthy v \<Longrightarrow> v \<noteq> None"
  by (cases v) simp_all

lemma searchBody_props:
  "get (searchBody f p o' s d) (js ''filters'') = f"
  "get (searchBody f p o' s d) (js ''pageSize'') = p"
  "get (searchBody f p o' s d) (js ''offset'') = o'"
  "get (searchBody f p o' s d) (js ''sortBy'') = (if truthy s then s else None)"
  "get (searchBody f p o' s d) (js ''desc'') = d"
proof -
  note ks = search_keys search_keys[symmetric]
  note gs = get_field_same get_field_other get_field_last get_Nil get_field_opt get_field_opt_other
    get_field_opt_last
  show "get (searchBody f p o' s d) (js ''filters'') = f"
    by (cases f) (simp_all add: searchBody_def gs ks)
  show "get (searchBody f p o' s d) (js ''pageSize'') = p"
    by (cases p) (simp_all add: searchBody_def gs ks)
  show "get (searchBody f p o' s d) (js ''offset'') = o'"
    by (cases o') (simp_all add: searchBody_def gs ks)
  show "get (searchBody f p o' s d) (js ''sortBy'') = (if truthy s then s else None)"
    using truthy_Some[of s] by (simp add: searchBody_def gs ks)
  show "get (searchBody f p o' s d) (js ''desc'') = d"
    by (cases d) (simp_all add: searchBody_def gs ks)
qed

lemma calls_http_search:
  "truthy (get (body rq) (js ''filters'')) \<Longrightarrow>
   snd (http_search (makeApiRequest k net) on_error path rq) =
     [\<lparr>req_url = API_BASE_URL @ path, req_method = POST, req_api_key = k,
        req_body = Some (JObj (searchBody (get (body rq) (js ''filters''))
          (with_default (get (body rq) (js ''pageSize'')) (JNum 20))
          (with_default (get (body rq) (js ''offset'')) (JNum 0))
          (get (body rq) (js ''sortBy''))
          (with_default (get (body rq) (js ''desc'')) (JBool True))))\<rparr>]"
  by (simp add: http_search_def Let_def calls_reply calls_makeApiRequest)

lemma calls_http_search2:
  "truthy (get (body rq) (js ''filters'')) \<Longrightarrow> k \<noteq> [] \<Longrightarrow>
   snd (http_search (makeApiRequest2 (Some k) net) on_error path rq) =
     [\<lparr>req_url = API_BASE_URL @ path, req_method = POST, req_api_key = k,
        req_body = Some (JObj (searchBody (get (body rq) (js ''filters''))
          (with_default (get (body rq) (js ''pageSize'')) (JNum 20))
          (with_default (get (body rq) (js ''offset'')) (JNum 0))
          (get (body rq) (js ''sortBy''))
          (with_default (get (body rq) (js ''desc'')) (JBool True))))\<rparr>]"
  by (simp add: http_search_def Let_def calls_reply calls_makeApiRequest2)

lemma calls_tool_search:
  "snd (tool_search (makeApiRequest k net) path args) =
     [\<lparr>req_url = API_BASE_URL @ path, req_method = POST, req_api_key = k,
        req_body = Some (JObj (searchBody (get args (js ''filters''))
          (or_default (get args (js ''pageSize'')) (JNum 20))
          (or_default (get args (js ''offset'')) (JNum 0))
          (get args (js ''sortBy''))
          (get args (js ''desc''))))\<rparr>]"
  by (simp add: tool_search_def calls_makeApiRequest)

text \<open>
  Claim C6, amended. In the HTTP shell (both variants) a search call that passes the
  \<open>filters\<close> check sends one request whose body has \<open>pageSize\<close>, \<open>offset\<close> and \<open>desc\<close>
  equal to the given value when the field is present, falsy or not, and to 20, 0 and
  \<open>true\<close> when it is absent. In the tool shell an absent \<open>pageSize\<close> or \<open>offset\<close> becomes
  20 or 0 and a truthy one is kept, and \<open>desc\<close> is forwarded as given when present and left
  out when absent. In both shells \<open>sortBy\<close> is forwarded exactly when it is truthy.
\<close>

theorem search_body_defaults:
  "(truthy (get (body rq) (js ''filters'')) \<longrightarrow>
      (\<exists>B. snd (http_search (makeApiRequest k net) catch500 path rq)
              = [\<lparr>req_url = API_BASE_URL @ path, req_method = POST, req_api_key = k,
                   req_body = Some (JObj B)\<rparr>]
          \<and> (k \<noteq> [] \<longrightarrow> snd (http_search (makeApiRequest2 (Some k) net) handleError path rq)
              = [\<lparr>req_url = API_BASE_URL @ path, req_method = POST, req_api_key = k,
                   req_body = Some (JObj B)\<rparr>])
          \<and> get B (js ''pageSize'')
              = (case get (body rq) (js ''pageSize'') of None \<Rightarrow> Some (JNum 20) | Some x \<Rightarrow> Some x)
          \<and> get B (js ''offset'')
              = (case get (body rq) (js ''offset'') of None \<Rightarrow> Some (JNum 0) | Some x \<Rightarrow> Some x)
          \<and> get B (js ''desc'')
              = (case get (body rq) (js ''desc'') of None \<Rightarrow> Some (JBool True) | Some x \<Rightarrow> Some x)
          \<and> get B (js ''sortBy'')
              = (if truthy (get (body rq) (js ''sortBy'')) then get (body rq) (js ''sortBy'') else None)))
   \<and> (\<exists>B. snd (tool_search (makeApiRequest k net) path args)
              = [\<lparr>req_url = API_BASE_URL @ path, req_method = POST, req_api_key = k,
                   req_body = Some (JObj B)\<rparr>]
          \<and> (get args (js ''pageSize'') = None \<longrightarrow> get B (js ''pageSize'') = Some (JNum 20))
          \<and> (truthy (get args (js ''pageSize'')) \<longrightarrow> get B (js ''pageSize'') = get args (js ''pageSize''))
          \<and> (get args (js ''offset'') = None \<longrightarrow> get B (js ''offset'') = Some (JNum 0))
          \<and> (truthy (get args (js ''offset'')) \<longrightarrow> get B (js ''offset'') = get args (js ''offset''))
          \<and> get B (js ''desc'') = get args (js ''desc'')
          \<and> get B (js ''sortBy'')
              = (if truthy (get args (js ''sortBy'')) then get args (js ''sortBy'') else None))"
proof (intro conjI impI)
  assume f: "truthy (get (body rq) (js ''filters''))"
  show "\<exists>B. snd (http_search (makeApiRequest k net) catch500 path rq)
              = [\<lparr>req_url = API_BASE_URL @ path, req_method = POST, req_api_key = k,
                   req_body = Some (JObj B)\<rparr>]
          \<and> (k \<noteq> [] \<longrightarrow> snd (http_search (makeApiRequest2 (Some k) net) handleError path rq)
              = [\<lparr>req_url = API_BASE_URL @ path, req_method = POST, req_api_key = k,
                   req_body = Some (JObj B)\<rparr>])
          \<and> get B (js ''pageSize'')
              = (case get (body rq) (js ''pageSize'') of None \<Rightarrow> Some (JNum 20) | Some x \<Rightarrow> Some x)
          \<and> get B (js ''offset'')
              = (case get (body rq) (js ''offset'') of None \<Rightarrow> Some (JNum 0) | Some x \<Rightarrow> Some x)
          \<and> get B (js ''desc'')
              = (case get (body rq) (js ''desc'') of None \<Rightarrow> Some (JBool True) | Some x \<Rightarrow> Some x)
          \<and> get B (js ''sortBy'')
              = (if truthy (get (body rq) (js ''sortBy'')) then get (body rq) (js ''sortBy'') else None)"
    by (rule exI[of _ "searchBody (get (body rq) (js ''filters''))
          (with_default (get (body rq) (js ''pageSize'')) (JNum 20))
          (with_default (get (body rq) (js ''offset'')) (JNum 0))
          (get (body rq) (js ''sortBy''))
          (with_default (get (body rq) (js ''desc'')) (JBool True))"])
       (simp add: calls_http_search[OF f] calls_http_search2[OF f] searchBody_props with_default_def)
next
  show "\<exists>B. snd (tool_search (makeApiRequest k net) path args)
              = [\<lparr>req_url = API_BASE_URL @ path, req_method = POST, req_api_key = k,
                   req_body = Some (JObj B)\<rparr>]
          \<and> (get args (js ''pageSize'') = None \<longrightarrow> get B (js ''pageSize'') = Some (JNum 20))
          \<and> (truthy (get args (js ''pageSize'')) \<longrightarrow> get B (js ''pageSize'') = get args (js ''pageSize''))
          \<and> (get args (js ''offset'') = None \<longrightarrow> get B (js ''offset'') = Some (JNum 0))
          \<and> (truthy (get args (js ''offset'')) \<longrightarrow> get B (js ''offset'') = get args (js ''offset''))
          \<and> get B (js ''desc'') = get args (js ''desc'')
          \<and> get B (js ''sortBy'')
              = (if truthy (get args (js ''sortBy'')) then get args (js ''sortBy'') else None)"
    by (rule exI[of _ "searchBody (get args (js ''filters''))
          (or_default (get args (js ''pageSize'')) (JNum 20))
          (or_default (get args (js ''offset'')) (JNum 0))
          (get args (js ''sortBy''))
          (get args (js ''desc''))"])
       (simp add: calls_tool_search searchBody_props or_default_def)
qed

text \<open>
  Claim C6, as stated, at three inputs. HTTP shell: \<open>sortBy\<close> present as the empty string
  is left out of the forwarded body. Tool shell: with \<open>desc\<close> absent no \<open>desc: true\<close> is
  forwarded; and \<open>pageSize: 0\<close> is forwarded as 20.
\<close>

theorem search_body_falsy_fields:
  "server1 (Some (js ''k'')) (\<lambda>rq. Decoded 200 (JObj []))
      \<lparr>http_method = POST, http_path = js ''/api/instagram/search'', query = [],
         body = [(js ''filters'', JArr []), (js ''sortBy'', JStr [])]\<rparr>
     = Replied \<lparr>res_status = 200, res_body = JObj []\<rparr>
        [\<lparr>req_url = js ''https://apiv3.creatordb.app/instagram/search'', req_method = POST,
           req_api_key = js ''k'',
           req_body = Some (JObj [(js ''filters'', JArr []), (js ''pageSize'', JNum 20),
             (js ''offset'', JNum 0), (js ''desc'', JBool True)])\<rparr>]
   \<and> handleToolCall (js ''k'') (\<lambda>rq. Decoded 200 (JObj [])) (js ''instagram_search'')
        [(js ''filters'', JArr [])]
     = (Inr (JObj []),
        [\<lparr>req_url = js ''https://apiv3.creatordb.app/instagram/search'', req_method = POST,
           req_api_key = js ''k'',
           req_body = Some (JObj [(js ''filters'', JArr []), (js ''pageSize'', JNum 20),
             (js ''offset'', JNum 0)])\<rparr>])
   \<and> handleToolCall (js ''k'') (\<lambda>rq. Decoded 200 (JObj [])) (js ''instagram_search'')
        [(js ''filters'', JArr []), (js ''pageSize'', JNum 0), (js ''offset'', JNum 0)]
     = (Inr (JObj []),
        [\<lparr>req_url = js ''https://apiv3.creatordb.app/instagram/search'', req_method = POST,
           req_api_key = js ''k'',
           req_body = Some (JObj [(js ''filters'', JArr []), (js ''pageSize'', JNum 20),
             (js ''offset'', JNum 0)])\<rparr>])"
  by code_simp

theorem search_body_defaults_witness:
  "truthy (get [(js ''filters'', JArr []), (js ''pageSize'', JNum 0), (js ''desc'', JBool False)] (js ''filters''))
   \<and> (\<exists>B. snd (http_search (makeApiRequest (js ''k'') (\<lambda>rq. Decoded 200 (JObj []))) catch500
               (js ''/instagram/search'')
               \<lparr>http_method = POST, http_path = js ''/api/instagram/search'', query = [],
                  body = [(js ''filters'', JArr []), (js ''pageSize'', JNum 0), (js ''desc'', JBool False)]\<rparr>)
            = [\<lparr>req_url = API_BASE_URL @ js ''/instagram/search'', req_method = POST,
                 req_api_key = js ''k'', req_body = Some (JObj B)\<rparr>]
        \<and> get B (js ''pageSize'') = Some (JNum 0)
        \<and> get B (js ''offset'') = Some (JNum 0)
        \<and> get B (js ''desc'') = Some (JBool False)
        \<and> get B (js ''sortBy'') = None)
   \<and> get [(js ''filters'', JArr []), (js ''offset'', JNum 40)] (js ''pageSize'') = None
   \<and> truthy (get [(js ''filters'', JArr []), (js ''offset'', JNum 40)] (js ''offset''))
   \<and> (\<exists>B. snd (tool_search (makeApiRequest (js ''k'') (\<lambda>rq. Decoded 200 (JObj []))) (js ''/instagram/search'')
               [(js ''filters'', JArr []), (js ''offset'', JNum 40)])
            = [\<lparr>req_url = API_BASE_URL @ js ''/instagram/search'', req_method = POST,
                 req_api_key = js ''k'', req_body = Some (JObj B)\<rparr>]
        \<and> get B (js ''pageSize'') = Some (JNum 20)
        \<and> get B (js ''offset'') = Some (JNum 40)
        \<and> get B (js ''desc'') = None)"
  using search_body_defaults [of
      "\<lparr>http_method = POST, http_path = js ''/api/instagram/search'', query = [],
         body = [(js ''filters'', JArr []), (js ''pageSize'', JNum 0), (js ''desc'', JBool False)]\<rparr>"
      "js ''k''" "\<lambda>rq. Decoded 200 (JObj [])" "js ''/instagram/search''"
      "[(js ''filters'', JArr []), (js ''offset'', JNum 40)]"]
  by (simp add: get_def js_def) blast

section \<open>The filters of a search call and the usage query string\<close>

text \<open>
  Claim C9, as stated, at a search call with eleven filters: neither shell rejects it, the
  eleven filters are sent upstream.
\<close>

theorem eleven_filters_forwarded:
  "length (replicate 11 (JObj [(js ''filterName'', JStr (js ''country'')), (js ''op'', JStr (js ''='')),
      (js ''value'', JStr (js ''USA''))])) = 11
   \<and> handleToolCall (js ''k'') (\<lambda>rq. Decoded 200 (JObj [])) (js ''instagram_search'')
        [(js ''filters'', JArr (replicate 11 (JObj [(js ''filterName'', JStr (js ''country'')),
            (js ''op'', JStr (js ''='')), (js ''value'', JStr (js ''USA''))]))),
         (js ''pageSize'', JNum 20), (js ''offset'', JNum 0)]
     = (Inr (JObj []),
        [\<lparr>req_url = js ''https://apiv3.creatordb.app/instagram/search'', req_method = POST,
           req_api_key = js ''k'',
           req_body = Some (JObj [(js ''filters'', JArr (replicate 11 (JObj [(js ''filterName'', JStr (js ''country'')),
               (js ''op'', JStr (js ''='')), (js ''value'', JStr (js ''USA''))]))),
             (js ''pageSize'', JNum 20), (js ''offset'', JNum 0)])\<rparr>])
   \<and> server2 (Some (js ''k'')) (\<lambda>rq. Decoded 200 (JObj []))
      \<lparr>http_method = POST, http_path = js ''/api/instagram/search'', query = [],
         body = [(js ''filters'', JArr (replicate 11 (JObj [(js ''filterName'', JStr (js ''country'')),
            (js ''op'', JStr (js ''='')), (js ''value'', JStr (js ''USA''))])))]\<rparr>
     = Replied \<lparr>res_status = 200, res_body = JObj []\<rparr>
        [\<lparr>req_url = js ''https://apiv3.creatordb.app/instagram/search'', req_method = POST,
           req_api_key = js ''k'',
           req_body = Some (JObj [(js ''filters'', JArr (replicate 11 (JObj [(js ''filterName'', JStr (js ''country'')),
               (js ''op'', JStr (js ''='')), (js ''value'', JStr (js ''USA''))]))),
             (js ''pageSize'', JNum 20), (js ''offset'', JNum 0), (js ''desc'', JBool True)])\<rparr>]"
  by code_simp

text \<open>
  Claim C9, amended. No shell counts the filters. The HTTP shell only checks that \<open>filters\<close>
  is truthy, the tool shell checks nothing; the request sent upstream carries the given
  \<open>filters\<close> value as it is, however many entries it has.
\<close>

theorem filters_forwarded_verbatim:
  "(truthy (get (body rq) (js ''filters'')) \<longrightarrow>
      (\<exists>B. snd (http_search (makeApiRequest k net) catch500 path rq)
              = [\<lparr>req_url = API_BASE_URL @ path, req_method = POST, req_api_key = k,
                   req_body = Some (JObj B)\<rparr>]
          \<and> (k \<noteq> [] \<longrightarrow> snd (http_search (makeApiRequest2 (Some k) net) handleError path rq)
              = [\<lparr>req_url = API_BASE_URL @ path, req_method = POST, req_api_key = k,
                   req_body = Some (JObj B)\<rparr>])
          \<and> get B (js ''filters'') = get (body rq) (js ''filters'')))
   \<and> (\<exists>B. snd (tool_search (makeApiRequest k net) path args)
              = [\<lparr>req_url = API_BASE_URL @ path, req_method = POST, req_api_key = k,
                   req_body = Some (JObj B)\<rparr>]
          \<and> get B (js ''filters'') = get args (js ''filters''))"
proof (intro conjI impI)
  assume f: "truthy (get (body rq) (js ''filters''))"
  show "\<exists>B. snd (http_search (makeApiRequest k net) catch500 path rq)
              = [\<lparr>req_url = API_BASE_URL @ path, req_method = POST, req_api_key = k,
                   req_body = Some (JObj B)\<rparr>]
          \<and> (k \<noteq> [] \<longrightarrow> snd (http_search (makeApiRequest2 (Some k) net) handleError path rq)
              = [\<lparr>req_url = API_BASE_URL @ path, req_method = POST, req_api_key = k,
                   req_body = Some (JObj B)\<rparr>])
          \<and> get B (js ''filters'') = get (body rq) (js ''filters'')"
    by (rule exI[of _ "searchBody (get (body rq) (js ''filters''))
          (with_default (get (body rq) (js ''pageSize'')) (JNum 20))
          (with_default (get (body rq) (js ''offset'')) (JNum 0))
          (get (body rq) (js ''sortBy''))
          (with_default (get (body rq) (js ''desc'')) (JBool True))"])
       (simp add: calls_http_search[OF f] calls_http_search2[OF f] searchBody_props)
next
  show "\<exists>B. snd (tool_search (makeApiRequest k net) path args)
              = [\<lparr>req_url = API_BASE_URL @ path, req_method = POST, req_api_key = k,
                   req_body = Some (JObj B)\<rparr>]
          \<and> get B (js ''filters'') = get args (js ''filters'')"
    by (rule exI[of _ "searchBody (get args (js ''filters''))
          (or_default (get args (js ''pageSize'')) (JNum 20))
          (or_default (get args (js ''offset'')) (JNum 0))
          (get args (js ''sortBy''))
          (get args (js ''desc''))"])
       (simp add: calls_tool_search searchBody_props)
qed

theorem filters_forwarded_verbatim_witness:
  "truthy (get [(js ''filters'', JArr (replicate 12 (JObj [])))] (js ''filters''))
   \<and> (\<exists>B. snd (http_search (makeApiRequest (js ''k'') (\<lambda>rq. Decoded 200 (JObj []))) catch500
               (js ''/youtube/search'')
               \<lparr>http_method = POST, http_path = js ''/api/youtube/search'', query = [],
                  body = [(js ''filters'', JArr (replicate 12 (JObj [])))]\<rparr>)
            = [\<lparr>req_url = API_BASE_URL @ js ''/youtube/search'', req_method = POST,
                 req_api_key = js ''k'', req_body = Some (JObj B)\<rparr>]
        \<and> get B (js ''filters'') = Some (JArr (replicate 12 (JObj []))))
   \<and> (\<exists>B. snd (tool_search (makeApiRequest (js ''k'') (\<lambda>rq. Decoded 200 (JObj []))) (js ''/youtube/search'')
               [(js ''filters'', JArr (replicate 12 (JObj [])))])
            = [\<lparr>req_url = API_BASE_URL @ js ''/youtube/search'', req_method = POST,
                 req_api_key = js ''k'', req_body = Some (JObj B)\<rparr>]
        \<and> get B (js ''filters'') = Some (JArr (replicate 12 (JObj []))))"
  using filters_forwarded_verbatim [of
      "\<lparr>http_method = POST, http_path = js ''/api/youtube/search'', query = [],
         body = [(js ''filters'', JArr (replicate 12 (JObj [])))]\<rparr>"
      "js ''k''" "\<lambda>rq. Decoded 200 (JObj [])" "js ''/youtube/search''"
      "[(js ''filters'', JArr (replicate 12 (JObj [])))]"]
  by (simp add: get_def js_def) blast

lemma append_if_Inr:
  "append_if src k = Inr p \<Longrightarrow>
     (truthy (src k) \<and> (\<exists>s. ToString_opt (src k) = Inr s \<and> p = [(k, s)])) \<or> (\<not> truthy (src k) \<and> p = [])"
  by (auto simp: append_if_def and_then_def split: if_splits sum.splits)

lemma usage_params_Inr:
  "usage_params src = Inr ps \<Longrightarrow>
     \<exists>p1 p2. append_if src (js ''start'') = Inr p1 \<and> append_if src (js ''end'') = Inr p2 \<and> ps = p1 @ p2"
  by (auto simp: usage_params_def and_then_def split: sum.splits)

lemma URLSearchParams_toString_empty: "URLSearchParams_toString ps = [] \<longleftrightarrow> ps = []"
  by (cases ps rule: URLSearchParams_toString.cases) simp_all

text \<open>
  Claim C7, amended. The usage operation puts \<open>start\<close> and \<open>end\<close> into the query string
  exactly when their value is truthy: an absent key is omitted, and so is a key present
  with a falsy value (\<open>0\<close>, \<open>false\<close>, \<open>""\<close>, \<open>null\<close>). A key that is included carries the
  string form of its value, and the path is \<open>/usage\<close> followed by \<open>?\<close> and the serialised
  pairs when there are any.
\<close>

theorem usage_params_truthy:
  "(\<forall>ps. usage_params src = Inr ps \<longrightarrow>
      (\<forall>k. k \<in> fst ` set ps \<longleftrightarrow> (k = js ''start'' \<or> k = js ''end'') \<and> truthy (src k))
    \<and> (\<forall>k v. (k, v) \<in> set ps \<longrightarrow> ToString_opt (src k) = Inr v)
    \<and> usage_endpoint src
        = Inr (js ''/usage'' @ (if ps = [] then [] else js ''?'' @ URLSearchParams_toString ps)))
   \<and> http_usage call on_error rq = reply on_error (run call (usage_endpoint (get (query rq))))
   \<and> tool_case call Usage args = run call (usage_endpoint (get args))"
proof (intro conjI allI impI)
  fix ps assume ps: "usage_params src = Inr ps"
  then obtain p1 p2 where p: "append_if src (js ''start'') = Inr p1"
      "append_if src (js ''end'') = Inr p2" "ps = p1 @ p2"
    using usage_params_Inr by blast
  note a = append_if_Inr[OF p(1)] append_if_Inr[OF p(2)]
  show "k \<in> fst ` set ps \<longleftrightarrow> (k = js ''start'' \<or> k = js ''end'') \<and> truthy (src k)" for k
    using a p(3) by auto
  show "ToString_opt (src k) = Inr v" if "(k, v) \<in> set ps" for k v
    using a p(3) that by auto
  show "usage_endpoint src
        = Inr (js ''/usage'' @ (if ps = [] then [] else js ''?'' @ URLSearchParams_toString ps))"
    by (simp add: usage_endpoint_def ps Let_def URLSearchParams_toString_empty)
next
  show "http_usage call on_error rq = reply on_error (run call (usage_endpoint (get (query rq))))"
    by (simp add: http_usage_def)
  show "tool_case call Usage args = run call (usage_endpoint (get args))"
    by simp
qed

text \<open>
  Claim C7, as stated, at falsy values that are present: the tool shell with
  \<open>start: 0, end: false\<close> and the HTTP shell with \<open>?start=\<close> both call \<open>/usage\<close> with no
  query string.
\<close>

theorem usage_falsy_values_omitted:
  "handleToolCall (js ''k'') (\<lambda>rq. Decoded 200 (JObj [])) (js ''get_api_usage'')
        [(js ''start'', JNum 0), (js ''end'', JBool False)]
     = (Inr (JObj []),
        [\<lparr>req_url = js ''https://apiv3.creatordb.app/usage'', req_method = GET,
           req_api_key = js ''k'', req_body = None\<rparr>])
   \<and> server2 (Some (js ''k'')) (\<lambda>rq. Decoded 200 (JObj []))
      \<lparr>http_method = GET, http_path = js ''/api/usage'', query = [(js ''start'', JStr [])], body = []\<rparr>
     = Replied \<lparr>res_status = 200, res_body = JObj []\<rparr>
        [\<lparr>req_url = js ''https://apiv3.creatordb.app/usage'', req_method = GET,
           req_api_key = js ''k'', req_body = None\<rparr>]"
  by code_simp

theorem usage_params_truthy_witness:
  "usage_params (get [(js ''start'', JStr (js ''0'')), (js ''end'', JNum 0)]) = Inr [(js ''start'', js ''0'')]
   \<and> fst ` set [(js ''start'', js ''0'')] = {js ''start''}
   \<and> truthy (get [(js ''start'', JStr (js ''0'')), (js ''end'', JNum 0)] (js ''start''))
   \<and> \<not> truthy (get [(js ''start'', JStr (js ''0'')), (js ''end'', JNum 0)] (js ''end''))
   \<and> ToString_opt (get [(js ''start'', JStr (js ''0'')), (js ''end'', JNum 0)] (js ''start'')) = Inr (js ''0'')
   \<and> usage_endpoint (get [(js ''start'', JStr (js ''0'')), (js ''end'', JNum 0)]) = Inr (js ''/usage?start=0'')"
proof -
  have p: "usage_params (get [(js ''start'', JStr (js ''0'')), (js ''end'', JNum 0)]) = Inr [(js ''start'', js ''0'')]"
    by code_simp
  have q: "URLSearchParams_toString [(js ''start'', js ''0'')] = js ''start=0''"
    by code_simp
  show ?thesis
    using p q usage_params_truthy [of "get [(js ''start'', JStr (js ''0'')), (js ''end'', JNum 0)]"]
    by (simp add: get_def js_def ToString_opt_def)
qed

section \<open>Identifiers in the upstream URL\<close>

lemma distinct_routes: "distinct (map fst (routes uid oth))"
  by (simp add: routes_def js_def)

lemma routes2_by_id:
  "((GET, lp), ById enc path p) \<in> set routes2 \<Longrightarrow>
     (p = js ''uniqueId'' \<and> enc = Sanitize) \<or> ((p = js ''channelId'' \<or> p = js ''contentId'') \<and> enc = Encode)"
  by (auto simp: routes2_def routes_def)

lemma interpolate_safe:
  "enc \<noteq> Raw \<Longrightarrow> interpolate enc v = Inr e \<Longrightarrow> list_all url_safe e"
  by (cases enc)
     (auto simp: list_all_iff and_then_def sanitizeId_def split: sum.splits dest: encodeURIComponent_safe)

lemma dispatch_route:
  "(key, h) \<in> set (routes uid oth) \<Longrightarrow> http_method rq = fst key \<Longrightarrow> http_path rq = snd key \<Longrightarrow>
     dispatch call on_error (routes uid oth) rq =
       Replied (fst (http_handle call on_error h rq)) (snd (http_handle call on_error h rq))"
  using map_of_is_SomeI[OF distinct_routes, of key h uid oth]
  by (simp add: dispatch_def split: prod.splits)

lemma calls_by_id2:
  "k \<noteq> [] \<Longrightarrow> truthy (get (query rq) p) \<Longrightarrow> interpolate enc (get (query rq) p) = Inr e \<Longrightarrow>
   snd (http_by_id (makeApiRequest2 (Some k) net) on_error enc path p rq) =
     [\<lparr>req_url = API_BASE_URL @ path @ js ''?'' @ p @ js ''='' @ e, req_method = GET, req_api_key = k,
        req_body = None\<rparr>]"
  by (simp add: http_by_id_def Let_def calls_reply run_def id_endpoint_def calls_makeApiRequest2)

text \<open>
  Claim C4, amended. In the second \<open>server.ts\<close>, a GET operation with an identifier puts it
  into the upstream URL through \<open>sanitizeId\<close> when the parameter is \<open>uniqueId\<close> and through
  \<open>encodeURIComponent\<close>, without the \<open>@\<close>-stripping, when it is \<open>channelId\<close> or \<open>contentId\<close>.
  The one request sent has the path, \<open>?\<close>, the parameter name, \<open>=\<close> and the encoded value,
  every code unit of which is an unreserved character or \<open>%\<close>.
\<close>

theorem second_variant_encodes_identifiers:
  assumes "((GET, lp), ById enc path p) \<in> set routes2"
    and "http_method rq = GET" and "http_path rq = lp"
    and "get (query rq) p = Some v" and "truthy (Some v)" and "ToString v = Inr s"
    and "k \<noteq> []"
  shows "((p = js ''uniqueId'' \<and> enc = Sanitize \<and> interpolate enc (Some v) = sanitizeId s)
          \<or> ((p = js ''channelId'' \<or> p = js ''contentId'') \<and> enc = Encode
              \<and> interpolate enc (Some v) = encodeURIComponent s))
    \<and> (\<forall>e. interpolate enc (Some v) = Inr e \<longrightarrow>
          list_all url_safe e
          \<and> (\<exists>res. server2 (Some k) net rq = Replied res
                [\<lparr>req_url = API_BASE_URL @ path @ js ''?'' @ p @ js ''='' @ e, req_method = GET,
                   req_api_key = k, req_body = None\<rparr>]))"
proof (intro conjI allI impI)
  have encs: "(p = js ''uniqueId'' \<and> enc = Sanitize) \<or> ((p = js ''channelId'' \<or> p = js ''contentId'') \<and> enc = Encode)"
    using assms(1) by (rule routes2_by_id)
  have s: "interpolate Sanitize (Some v) = sanitizeId s" "interpolate Encode (Some v) = encodeURIComponent s"
    using assms(6) by (simp_all add: ToString_opt_def and_then_def)
  show "(p = js ''uniqueId'' \<and> enc = Sanitize \<and> interpolate enc (Some v) = sanitizeId s)
          \<or> ((p = js ''channelId'' \<or> p = js ''contentId'') \<and> enc = Encode
              \<and> interpolate enc (Some v) = encodeURIComponent s)"
    using encs s by auto
  fix e assume e: "interpolate enc (Some v) = Inr e"
  have nr: "enc \<noteq> Raw"
    using encs by auto
  show "list_all url_safe e"
    using nr e by (rule interpolate_safe)
  have d: "server2 (Some k) net rq =
      Replied (fst (http_handle (makeApiRequest2 (Some k) net) handleError (ById enc path p) rq))
        (snd (http_handle (makeApiRequest2 (Some k) net) handleError (ById enc path p) rq))"
    using assms(1,2,3) dispatch_route[of "(GET, lp)" "ById enc path p" Sanitize Encode rq]
    by (simp add: server2_def startup2_def routes2_def)
  have c: "snd (http_handle (makeApiRequest2 (Some k) net) handleError (ById enc path p) rq) =
     [\<lparr>req_url = API_BASE_URL @ path @ js ''?'' @ p @ js ''='' @ e, req_method = GET, req_api_key = k,
        req_body = None\<rparr>]"
    using calls_by_id2[of k rq p enc e net handleError path] assms(4,5,7) e by simp
  show "\<exists>res. server2 (Some k) net rq = Replied res
                [\<lparr>req_url = API_BASE_URL @ path @ js ''?'' @ p @ js ''='' @ e, req_method = GET,
                   req_api_key = k, req_body = None\<rparr>]"
    using d c by simp
qed

text \<open>
  Claim C4, as stated, at \<open>channelId = "@x"\<close> on the second \<open>server.ts\<close>: the identifier is not
  routed through \<open>sanitizeId\<close>, which would give \<open>x\<close>; the URL carries \<open>%40x\<close>.
\<close>

theorem channelId_not_sanitized:
  "server2 (Some (js ''k'')) (\<lambda>rq. Decoded 200 (JObj []))
      \<lparr>http_method = GET, http_path = js ''/api/youtube/profile'',
         query = [(js ''channelId'', JStr (js ''@x''))], body = []\<rparr>
     = Replied \<lparr>res_status = 200, res_body = JObj []\<rparr>
        [\<lparr>req_url = js ''https://apiv3.creatordb.app/youtube/profile?channelId=%40x'', req_method = GET,
           req_api_key = js ''k'', req_body = None\<rparr>]
   \<and> sanitizeId (js ''@x'') = Inr (js ''x'')"
  by code_simp

text \<open>The first \<open>server.ts\<close> and the tool shell interpolate the value as it is.\<close>

lemma first_variant_interpolates_raw:
  "server1 (Some (js ''k'')) (\<lambda>rq. Decoded 200 (JObj []))
      \<lparr>http_method = GET, http_path = js ''/api/instagram/profile'',
         query = [(js ''uniqueId'', JStr (js ''@a b&c''))], body = []\<rparr>
     = Replied \<lparr>res_status = 200, res_body = JObj []\<rparr>
        [\<lparr>req_url = js ''https://apiv3.creatordb.app/instagram/profile?uniqueId=@a b&c'', req_method = GET,
           req_api_key = js ''k'', req_body = None\<rparr>]"
  by code_simp

theorem second_variant_encodes_identifiers_witness:
  "((GET, js ''/api/tiktok/profile''), ById Sanitize (js ''/tiktok/profile'') (js ''uniqueId'')) \<in> set routes2
   \<and> get [(js ''uniqueId'', JStr (js ''@a b''))] (js ''uniqueId'') = Some (JStr (js ''@a b''))
   \<and> truthy (Some (JStr (js ''@a b'')))
   \<and> ToString (JStr (js ''@a b'')) = Inr (js ''@a b'')
   \<and> interpolate Sanitize (Some (JStr (js ''@a b''))) = Inr (js ''a%20b'')
   \<and> list_all url_safe (js ''a%20b'')
   \<and> (\<exists>res. server2 (Some (js ''k'')) (\<lambda>rq. Decoded 200 (JObj []))
          \<lparr>http_method = GET, http_path = js ''/api/tiktok/profile'',
             query = [(js ''uniqueId'', JStr (js ''@a b''))], body = []\<rparr>
        = Replied res
           [\<lparr>req_url = API_BASE_URL @ js ''/tiktok/profile'' @ js ''?'' @ js ''uniqueId'' @ js ''='' @ js ''a%20b'',
              req_method = GET, req_api_key = js ''k'', req_body = None\<rparr>])"
proof -
  have r: "((GET, js ''/api/tiktok/profile''), ById Sanitize (js ''/tiktok/profile'') (js ''uniqueId'')) \<in> set routes2"
    by (simp add: routes2_def routes_def)
  have g: "get [(js ''uniqueId'', JStr (js ''@a b''))] (js ''uniqueId'') = Some (JStr (js ''@a b''))"
    by (simp add: get_def)
  have i: "interpolate Sanitize (Some (JStr (js ''@a b''))) = Inr (js ''a%20b'')"
    by code_simp
  have k: "js ''k'' \<noteq> []"
    by (simp add: js_def)
  show ?thesis
    using r g i
      second_variant_encodes_identifiers [of "js ''/api/tiktok/profile''" Sanitize "js ''/tiktok/profile''"
        "js ''uniqueId''"
        "\<lparr>http_method = GET, http_path = js ''/api/tiktok/profile'',
             query = [(js ''uniqueId'', JStr (js ''@a b''))], body = []\<rparr>"
        "JStr (js ''@a b'')" "js ''@a b''" "js ''k''" "\<lambda>rq. Decoded 200 (JObj [])", OF r _ _ _ _ _ k]
    by (simp add: js_def)
qed

section \<open>Start-up without the key\<close>

lemma handleError_plain: "plain e \<Longrightarrow> handleError e = \<lparr>res_status = 500, res_body = failure (message e)\<rparr>"
  by (cases e) (simp_all add: handleError_def plain_def)

lemma prepend_Inl: "prepend p r = Inl e \<Longrightarrow> r = Inl e"
  by (cases r) (simp_all add: prepend_def)

lemma ToString_plain:
  "ToString v = Inl e \<Longrightarrow> plain e"
  "join_elements xs = Inl e \<Longrightarrow> plain e"
  by (induction v and xs arbitrary: e and e rule: ToString_join_elements.induct)
     (auto simp: plain_def split: if_splits sum.splits dest!: prepend_Inl)

lemma encodeURIComponent_plain: "encodeURIComponent s = Inl e \<Longrightarrow> plain e"
  by (induction s arbitrary: e rule: encodeURIComponent.induct)
     (auto simp: plain_def split: if_splits dest!: prepend_Inl)

lemma ToString_opt_plain: "ToString_opt v = Inl e \<Longrightarrow> plain e"
  by (cases v) (auto simp: ToString_opt_def dest: ToString_plain)

lemma interpolate_plain: "interpolate enc v = Inl e \<Longrightarrow> plain e"
  by (cases enc)
     (auto simp: and_then_def sanitizeId_def split: sum.splits
           dest: ToString_opt_plain encodeURIComponent_plain)

lemma id_endpoint_plain: "id_endpoint enc path p v = Inl e \<Longrightarrow> plain e"
  by (auto simp: id_endpoint_def and_then_def split: sum.splits dest: interpolate_plain)

lemma append_if_plain: "append_if src k = Inl e \<Longrightarrow> plain e"
  by (auto simp: append_if_def and_then_def split: if_splits sum.splits dest: ToString_opt_plain)

lemma usage_endpoint_plain: "usage_endpoint src = Inl e \<Longrightarrow> plain e"
  by (auto simp: usage_endpoint_def usage_params_def and_then_def Let_def split: sum.splits
           dest: append_if_plain)

lemma makeApiRequest2_absent:
  "absent env \<Longrightarrow> makeApiRequest2 env net endpoint m b = (Inl key_required, [])"
  by (auto simp: absent_def makeApiRequest2_def)

lemma handleError_key_required:
  "handleError key_required =
     \<lparr>res_status = 500, res_body = failure (js ''CREATORDB_API_KEY environment variable is required'')\<rparr>"
  by (simp add: key_required_def handleError_def)

lemma refused_bad_request: "refused (bad_request p)"
  by (auto simp: refused_def bad_request_def)

lemma refused_run:
  assumes "absent env" and "\<And>e. endpoint = Inl e \<Longrightarrow> plain e"
  shows "refused (reply handleError (run (makeApiRequest2 env net) endpoint))"
proof (cases endpoint)
  case (Inl e)
  then show ?thesis
    using assms(2)[OF Inl] by (auto simp: run_def reply_def refused_def handleError_plain)
next
  case (Inr ep)
  then show ?thesis
    using assms(1)
    by (auto simp: run_def reply_def refused_def makeApiRequest2_absent handleError_key_required)
qed

lemma refused_call:
  "absent env \<Longrightarrow> refused (reply handleError (makeApiRequest2 env net endpoint m b))"
  by (auto simp: reply_def refused_def makeApiRequest2_absent handleError_key_required)

lemma http_handle_absent:
  "absent env \<Longrightarrow> refused (http_handle (makeApiRequest2 env net) handleError h rq)"
proof (cases h)
  case Usage
  assume "absent env"
  then show ?thesis
    unfolding Usage by (simp add: http_usage_def refused_run usage_endpoint_plain)
next
  case (ById enc path p)
  assume "absent env"
  then show ?thesis
    unfolding ById by (simp add: http_by_id_def Let_def refused_bad_request refused_run id_endpoint_plain)
next
  case (Search path)
  assume "absent env"
  then show ?thesis
    unfolding Search by (simp add: http_search_def Let_def refused_bad_request refused_call)
next
  case (Nls path)
  assume "absent env"
  then show ?thesis
    unfolding Nls by (simp add: http_nls_def Let_def refused_bad_request refused_call)
next
  case (Plain path)
  assume "absent env"
  then show ?thesis
    unfolding Plain by (simp add: http_plain_def refused_call)
qed

lemma server2_absent:
  assumes "absent env"
  shows "server2 env net rq = NoRoute
     \<or> (\<exists>res. server2 env net rq = Replied res []
           \<and> (res_status res = 400 \<or> res_status res = 500) \<and> (\<exists>m. res_body res = failure m))"
proof (cases "map_of routes2 (http_method rq, http_path rq)")
  case None
  then show ?thesis
    by (simp add: server2_def startup2_def dispatch_def)
next
  case (Some h)
  obtain res cs where r: "http_handle (makeApiRequest2 env net) handleError h rq = (res, cs)"
    by (cases "http_handle (makeApiRequest2 env net) handleError h rq")
  have "refused (res, cs)"
    using http_handle_absent[OF assms, of net h rq] r by simp
  then show ?thesis
    using Some r by (auto simp: server2_def startup2_def dispatch_def refused_def)
qed

lemma carries_makeApiRequest2: "carries_key env (snd (makeApiRequest2 env net endpoint m b))"
  by (cases env) (simp_all add: makeApiRequest2_def carries_key_def Let_def)

lemma carries_makeApiRequest: "k \<noteq> [] \<Longrightarrow> carries_key (Some k) (snd (makeApiRequest k net endpoint m b))"
  by (simp add: makeApiRequest_def carries_key_def Let_def)

lemma carries_Nil: "carries_key env []"
  by (simp add: carries_key_def)

lemma carries_run:
  "(\<And>ep m b. carries_key env (snd (call ep m b))) \<Longrightarrow> carries_key env (snd (run call endpoint))"
  by (cases endpoint) (simp_all add: run_def carries_Nil)

lemma carries_http_handle:
  assumes "\<And>ep m b. carries_key env (snd (call ep m b))"
  shows "carries_key env (snd (http_handle call on_error h rq))"
  by (cases h)
     (simp_all add: http_usage_def http_by_id_def http_search_def http_nls_def http_plain_def Let_def
        calls_reply bad_request_def carries_Nil carries_run assms)

lemma carries_tool_case:
  assumes "\<And>ep m b. carries_key env (snd (call ep m b))"
  shows "carries_key env (snd (tool_case call h args))"
  by (cases h) (simp_all add: tool_search_def tool_nls_def carries_run assms)

lemma carries_dispatch:
  assumes "\<And>ep m b. carries_key env (snd (call ep m b))"
    and "dispatch call on_error table rq = Replied res cs"
  shows "carries_key env cs"
proof (cases "map_of table (http_method rq, http_path rq)")
  case None
  then show ?thesis using assms(2) by (simp add: dispatch_def)
next
  case (Some h)
  then have "cs = snd (http_handle call on_error h rq)"
    using assms(2) by (simp add: dispatch_def split: prod.splits)
  then show ?thesis
    using carries_http_handle[OF assms(1)] by simp
qed

lemma startup_Running: "startup env = Running k \<Longrightarrow> env = Some k \<and> k \<noteq> []"
  by (auto simp: startup_def split: option.splits if_splits)

lemma startup_absent: "absent env \<Longrightarrow> startup env = Exited 1"
  by (auto simp: startup_def absent_def)

lemma carries_server1: "server1 env net rq = Replied res cs \<Longrightarrow> carries_key env cs"
proof (cases "startup env")
  case (Exited c)
  assume "server1 env net rq = Replied res cs"
  then show ?thesis using Exited by (simp add: server1_def)
next
  case (Running k)
  assume a: "server1 env net rq = Replied res cs"
  have k: "env = Some k" "k \<noteq> []"
    using startup_Running[OF Running] by simp_all
  have "dispatch (makeApiRequest k net) catch500 routes1 rq = Replied res cs"
    using a Running by (simp add: server1_def)
  then show ?thesis
    using carries_dispatch[of env "makeApiRequest k net"] carries_makeApiRequest[OF k(2)] k(1) by blast
qed

lemma carries_server2: "server2 env net rq = Replied res cs \<Longrightarrow> carries_key env cs"
  using carries_dispatch[of env "makeApiRequest2 env net" handleError routes2 rq res cs]
    carries_makeApiRequest2[of env net]
  by (simp add: server2_def startup2_def)

lemma calls_handleToolCall:
  "snd (handleToolCall k net name args) =
     (case map_of tool_cases name of None \<Rightarrow> [] | Some h \<Rightarrow> snd (tool_case (makeApiRequest k net) h args))"
  by (simp add: handleToolCall_def split: option.splits prod.splits sum.splits)

lemma carries_tool_server: "tool_server env net name args = Some (r, cs) \<Longrightarrow> carries_key env cs"
proof (cases "startup env")
  case (Exited c)
  assume "tool_server env net name args = Some (r, cs)"
  then show ?thesis using Exited by (simp add: tool_server_def)
next
  case (Running k)
  assume a: "tool_server env net name args = Some (r, cs)"
  have k: "env = Some k" "k \<noteq> []"
    using startup_Running[OF Running] by simp_all
  have "cs = snd (handleToolCall k net name args)"
    using a Running by (simp add: tool_server_def)
  then show ?thesis
    using carries_tool_case[of env "makeApiRequest k net"] carries_makeApiRequest[OF k(2)] k(1)
    by (simp add: calls_handleToolCall carries_Nil split: option.splits)
qed

text \<open>
  Claim C8, amended. When \<open>CREATORDB_API_KEY\<close> is unset or empty, the tool shell and the
  first \<open>server.ts\<close> exit with code 1 at start-up and serve nothing. The second \<open>server.ts\<close>
  starts all the same: a request to one of its routes is dispatched and answered with a
  failure of status 400 or 500, without any outbound request. In every shell and for every
  configuration, each outbound request carries the configured, non-empty key.
\<close>

theorem absent_key:
  "(env = None \<or> env = Some [] \<longrightarrow>
      startup env = Exited 1 \<and> server1 env net rq = NotServing \<and> tool_server env net name args = None
      \<and> startup2 env = Running env
      \<and> (server2 env net rq = NoRoute
          \<or> (\<exists>res. server2 env net rq = Replied res []
                \<and> (res_status res = 400 \<or> res_status res = 500) \<and> (\<exists>m. res_body res = failure m))))
   \<and> (\<forall>res cs. server1 env net rq = Replied res cs \<longrightarrow> carries_key env cs)
   \<and> (\<forall>res cs. server2 env net rq = Replied res cs \<longrightarrow> carries_key env cs)
   \<and> (\<forall>r cs. tool_server env net name args = Some (r, cs) \<longrightarrow> carries_key env cs)"
proof (intro conjI allI impI)
  assume "env = None \<or> env = Some []"
  then have a: "absent env"
    by (simp add: absent_def)
  show "startup env = Exited 1"
    using a by (rule startup_absent)
  show "server1 env net rq = NotServing"
    by (simp add: server1_def startup_absent[OF a])
  show "tool_server env net name args = None"
    by (simp add: tool_server_def startup_absent[OF a])
  show "startup2 env = Running env"
    by (simp add: startup2_def)
  show "server2 env net rq = NoRoute
          \<or> (\<exists>res. server2 env net rq = Replied res []
                \<and> (res_status res = 400 \<or> res_status res = 500) \<and> (\<exists>m. res_body res = failure m))"
    using a by (rule server2_absent)
next
  fix res cs assume "server1 env net rq = Replied res cs"
  then show "carries_key env cs" by (rule carries_server1)
next
  fix res cs assume "server2 env net rq = Replied res cs"
  then show "carries_key env cs" by (rule carries_server2)
next
  fix r cs assume "tool_server env net name args = Some (r, cs)"
  then show "carries_key env cs" by (rule carries_tool_server)
qed

text \<open>
  Claim C8, as stated, on the second \<open>server.ts\<close> with the key unset: requests are
  dispatched and each fails on its own, one with 500 from the key check inside
  \<open>makeApiRequest\<close>, one with 400 from the parameter check.
\<close>

theorem second_variant_serves_without_key:
  "server2 None (\<lambda>rq. Decoded 200 (JObj []))
      \<lparr>http_method = GET, http_path = js ''/api/instagram/niches'', query = [], body = []\<rparr>
     = Replied \<lparr>res_status = 500,
         res_body = failure (js ''CREATORDB_API_KEY environment variable is required'')\<rparr> []
   \<and> server2 None (\<lambda>rq. Decoded 200 (JObj []))
      \<lparr>http_method = GET, http_path = js ''/api/instagram/profile'', query = [], body = []\<rparr>
     = Replied \<lparr>res_status = 400, res_body = failure (js ''uniqueId is required'')\<rparr> []"
  by code_simp

theorem absent_key_witness:
  "startup None = Exited 1
   \<and> server1 None (\<lambda>rq. Decoded 200 (JObj []))
        \<lparr>http_method = GET, http_path = js ''/api/youtube/topics'', query = [], body = []\<rparr> = NotServing
   \<and> tool_server None (\<lambda>rq. Decoded 200 (JObj [])) (js ''youtube_get_topics'') [] = None
   \<and> (\<exists>res. server2 None (\<lambda>rq. Decoded 200 (JObj []))
        \<lparr>http_method = GET, http_path = js ''/api/youtube/topics'', query = [], body = []\<rparr> = Replied res []
        \<and> res_status res = 500)
   \<and> server1 (Some (js ''k'')) (\<lambda>rq. Decoded 200 (JObj []))
        \<lparr>http_method = GET, http_path = js ''/api/youtube/topics'', query = [], body = []\<rparr>
      = Replied \<lparr>res_status = 200, res_body = JObj []\<rparr>
          [\<lparr>req_url = js ''https://apiv3.creatordb.app/youtube/topics'', req_method = GET,
             req_api_key = js ''k'', req_body = None\<rparr>]
   \<and> carries_key (Some (js ''k''))
          [\<lparr>req_url = js ''https://apiv3.creatordb.app/youtube/topics'', req_method = GET,
             req_api_key = js ''k'', req_body = None\<rparr>]"
proof -
  have s2: "server2 None (\<lambda>rq. Decoded 200 (JObj []))
        \<lparr>http_method = GET, http_path = js ''/api/youtube/topics'', query = [], body = []\<rparr>
      = Replied \<lparr>res_status = 500,
         res_body = failure (js ''CREATORDB_API_KEY environment variable is required'')\<rparr> []"
    by code_simp
  have s1: "server1 (Some (js ''k'')) (\<lambda>rq. Decoded 200 (JObj []))
        \<lparr>http_method = GET, http_path = js ''/api/youtube/topics'', query = [], body = []\<rparr>
      = Replied \<lparr>res_status = 200, res_body = JObj []\<rparr>
          [\<lparr>req_url = js ''https://apiv3.creatordb.app/youtube/topics'', req_method = GET,
             req_api_key = js ''k'', req_body = None\<rparr>]"
    by code_simp
  show ?thesis
    using s1 s2
      absent_key [of None "\<lambda>rq. Decoded 200 (JObj [])"
        "\<lparr>http_method = GET, http_path = js ''/api/youtube/topics'', query = [], body = []\<rparr>"
        "js ''youtube_get_topics''" "[]"]
      absent_key [of "Some (js ''k'')" "\<lambda>rq. Decoded 200 (JObj [])"
        "\<lparr>http_method = GET, http_path = js ''/api/youtube/topics'', query = [], body = []\<rparr>"
        "js ''youtube_get_topics''" "[]"]
    by simp
qed

end
